theory Spec2Isabelle
  imports Complex_Main
begin

section \<open>transfer.py: the table classifier\<close>

text \<open>
  Python exceptions are values.  \<open>External\<close> stands for whatever the remote client or the
  JSON parser raises (network errors, malformed responses); its argument is the message.
\<close>

datatype py_error =
    ZeroDivisionError
  | AttributeError
  | KeyError string
  | External string

text \<open>
  A cell of an extracted table is a string or \<open>None\<close> (pdfplumber leaves absent cells as
  \<open>None\<close>); a table is a list of rows, a row a list of cells.  Rows need not have the same
  length: the classifier itself measures the width as the longest row.
\<close>

type_synonym cell = "string option"
type_synonym table = "cell list list"

text \<open>
  What \<open>json.loads\<close> returns.  An object is kept as its key/value pairs in document order.
  Numbers are reals; the non-finite numbers that \<open>json.loads\<close> accepts as an extension are
  left out.
\<close>

datatype json =
    JNull
  | JBool bool
  | JNum real
  | JStr string
  | JList "json list"
  | JDict "(string \<times> json) list"

text \<open>
  The payload of one classification request, and the request itself.  The system prompt,
  the response format, the temperature and the token limit are constants of the source
  and are not repeated here; \<open>json.dumps\<close> of the payload is injective and the request
  carries the payload itself.
\<close>

record payload =
  page_index :: nat
  page_text :: string
  table_preview :: table

record request =
  req_model :: string
  req_payload :: payload

text \<open>
  \<open>str.isdigit\<close> and \<open>str.lower\<close> on the ASCII range; a \<open>char\<close> is a byte, and bytes from
  128 on are neither digits nor upper-case letters here.
\<close>

definition isdigit :: "char \<Rightarrow> bool" where
  "isdigit ch = (let n = (of_char ch :: nat) in 48 \<le> n \<and> n \<le> 57)"

definition lower_char :: "char \<Rightarrow> char" where
  "lower_char ch =
     (let n = (of_char ch :: nat) in if 65 \<le> n \<and> n \<le> 90 then char_of (n + 32) else ch)"

definition lower :: "string \<Rightarrow> string" where
  "lower s = map lower_char s"

text \<open>\<open>k in s\<close> on strings: \<open>k\<close> occurs in \<open>s\<close> as a contiguous run.\<close>

fun starts_with :: "string \<Rightarrow> string \<Rightarrow> bool" where
  "starts_with s [] = True"
| "starts_with [] (k # ks) = False"
| "starts_with (c # cs) (k # ks) = (c = k \<and> starts_with cs ks)"

fun str_in :: "string \<Rightarrow> string \<Rightarrow> bool" where
  "str_in k [] = (k = [])"
| "str_in k (c # cs) = (starts_with (c # cs) k \<or> str_in k cs)"

text \<open>\<open>isinstance(c, str) and any(ch.isdigit() for ch in c)\<close>\<close>

definition digit_cell :: "cell \<Rightarrow> bool" where
  "digit_cell c = (case c of None \<Rightarrow> False | Some s \<Rightarrow> list_ex isdigit s)"

text \<open>
  The inner function \<open>is_numeric_row\<close>.  The source divides \<open>digit_cells\<close> by \<open>len(row)\<close>
  with no guard, so a row of length 0 raises \<open>ZeroDivisionError\<close>.  The quotient is a
  float in the source and a real here; the comparison with 0.5 agrees for every row
  shorter than \<open>2^53\<close> cells.
\<close>

definition is_numeric_row :: "cell list \<Rightarrow> py_error + bool" where
  "is_numeric_row row =
     (let digit_cells = length (filter digit_cell row);
          total = length row
      in if total = 0 then Inl ZeroDivisionError
         else Inr (real digit_cells / real total \<ge> 1 / 2))"

text \<open>
  \<open>sum(is_numeric_row(r) for r in table_preview)\<close>: the rows are visited in order and the
  first exception ends the sum.
\<close>

fun numeric_row_count :: "table \<Rightarrow> py_error + nat" where
  "numeric_row_count [] = Inr 0"
| "numeric_row_count (r # rs) =
     (case is_numeric_row r of
        Inl e \<Rightarrow> Inl e
      | Inr b \<Rightarrow>
          (case numeric_row_count rs of
             Inl e \<Rightarrow> Inl e
           | Inr n \<Rightarrow> Inr ((if b then 1 else 0) + n)))"

definition KEYWORDS :: "string list" where
  "KEYWORDS =
     [''cost'', ''rate'', ''premium'', ''weekly'', ''monthly'',
      ''death'', ''tpd'', ''income protection'',
      ''waiting period'', ''benefit period'', ''cover'']"

definition hit_keyword :: "string \<Rightarrow> bool" where
  "hit_keyword text_lower = list_ex (\<lambda>k. str_in k text_lower) KEYWORDS"

definition num_cols :: "table \<Rightarrow> nat" where
  "num_cols preview =
     (if preview = [] then 0 else Max (set (map length preview)))"

definition rejected :: json where
  "rejected = JDict [(''is_rate_table'', JBool False), (''sheet_title'', JStr '''')]"

text \<open>
  \<open>classify_table_with_model\<close>.  The remote service and the JSON parser are parameters:
  \<open>create rq\<close> is the content of the first choice of the response to \<open>rq\<close>, or the
  exception the client raises; \<open>loads\<close> is \<open>json.loads\<close>.  The second component of the
  result lists the requests that were sent, in order: it is the effect of the call.
  \<open>hit_keyword\<close> is computed as in the source, which does not use it afterwards.
\<close>

definition classify_table_with_model ::
  "(request \<Rightarrow> py_error + string) \<Rightarrow> (string \<Rightarrow> py_error + json) \<Rightarrow>
   nat \<Rightarrow> string option \<Rightarrow> table \<Rightarrow> string \<Rightarrow> (py_error + json) \<times> request list" where
  "classify_table_with_model create loads pg_index pg_text preview model =
     (let num_rows = length preview in
      if num_rows < 4 \<or> num_cols preview < 4 then (Inr rejected, [])
      else
        case numeric_row_count preview of
          Inl e \<Rightarrow> (Inl e, [])
        | Inr numeric_rows \<Rightarrow>
            if numeric_rows < 2 then (Inr rejected, [])
            else
              let text_lower = lower (case pg_text of None \<Rightarrow> '''' | Some t \<Rightarrow> t);
                  hit = hit_keyword text_lower;
                  rq = \<lparr>req_model = model,
                        req_payload = \<lparr>page_index = pg_index,
                                       page_text = take 1500 text_lower,
                                       table_preview = preview\<rparr>\<rparr>
              in (case create rq of
                    Inl e \<Rightarrow> (Inl e, [rq])
                  | Inr raw \<Rightarrow> (loads raw, [rq])))"


section \<open>transfer.py: processing one PDF\<close>

text \<open>
  \<open>str.strip\<close> removes white space at both ends; \<open>str(n)\<close> is the decimal numeral of a
  natural number, as the f-strings of the source print page numbers, table numbers and
  sheet-name suffixes.
\<close>

definition isspace :: "char \<Rightarrow> bool" where
  "isspace ch = (let n = (of_char ch :: nat) in n = 32 \<or> (9 \<le> n \<and> n \<le> 13) \<or> (28 \<le> n \<and> n \<le> 31))"

definition strip :: "string \<Rightarrow> string" where
  "strip s = rev (dropWhile isspace (rev (dropWhile isspace s)))"

text \<open>\<open>str(n)\<close> for \<open>n \<ge> 0\<close>: decimal digits, most significant first.\<close>

definition digit_char :: "nat \<Rightarrow> char" where
  "digit_char d = ''0123456789'' ! d"

fun str_nat :: "nat \<Rightarrow> string" where
  "str_nat n = (if n < 10 then [digit_char n] else str_nat (n div 10) @ [digit_char (n mod 10)])"

declare str_nat.simps [simp del]

text \<open>
  Python's truth value of a parsed JSON value, and \<open>cls.get(key)\<close>: only a \<open>dict\<close> has
  \<open>get\<close> (anything else raises \<open>AttributeError\<close>), and a missing key gives \<open>None\<close>.
\<close>

fun truthy :: "json \<Rightarrow> bool" where
  "truthy JNull = False"
| "truthy (JBool b) = b"
| "truthy (JNum x) = (x \<noteq> 0)"
| "truthy (JStr s) = (s \<noteq> [])"
| "truthy (JList xs) = (xs \<noteq> [])"
| "truthy (JDict kvs) = (kvs \<noteq> [])"

fun py_get :: "json \<Rightarrow> string \<Rightarrow> py_error + json" where
  "py_get (JDict kvs) key = Inr (case map_of kvs key of None \<Rightarrow> JNull | Some v \<Rightarrow> v)"
| "py_get other key = Inl AttributeError"

text \<open>
  An entry of \<open>rate_tables\<close>; the lines the run prints; and the state the loops of
  \<open>process_single_pdf\<close> carry: the accepted tables, the console, and the requests sent
  to the remote service so far.
\<close>

record accepted =
  sheet_title :: string
  data :: table

datatype console_line =
    Processing string
  | Warn_classification_failed nat nat py_error
  | No_rate_tables
  | Excel_generated string

record run_state =
  rate_tables :: "accepted list"
  console :: "console_line list"
  sent :: "request list"

text \<open>\<open>f"Rates page {page_idx+1} table {t_idx+1}"\<close>\<close>

definition fallback_title :: "nat \<Rightarrow> nat \<Rightarrow> string" where
  "fallback_title page_idx t_idx =
     ''Rates page '' @ str_nat (page_idx + 1) @ '' table '' @ str_nat (t_idx + 1)"

text \<open>
  The body of the loop over the tables of a page.  An exception inside
  \<open>classify_table_with_model\<close> is caught: a warning with the 1-based page and table numbers
  is printed and the loop goes on.  The calls after the \<open>try\<close> block are not guarded:
  \<open>cls.get\<close> on a response that is not an object, and \<open>strip\<close> on a title that is not a
  string, raise \<open>AttributeError\<close> out of \<open>process_single_pdf\<close>.
\<close>

definition process_table ::
  "(request \<Rightarrow> py_error + string) \<Rightarrow> (string \<Rightarrow> py_error + json) \<Rightarrow> string \<Rightarrow>
   nat \<Rightarrow> string \<Rightarrow> nat \<Rightarrow> table \<Rightarrow> run_state \<Rightarrow> py_error + run_state" where
  "process_table create loads model page_idx pg_text t_idx tbl st =
     (if tbl = [] then Inr st
      else
        let preview = map (take 8) (take 6 tbl);
            outcome = classify_table_with_model create loads page_idx (Some pg_text) preview model;
            st1 = st\<lparr>sent := sent st @ snd outcome\<rparr>
        in (case fst outcome of
              Inl e \<Rightarrow>
                Inr (st1\<lparr>console := console st1 @
                              [Warn_classification_failed (page_idx + 1) (t_idx + 1) e]\<rparr>)
            | Inr cls \<Rightarrow>
                (case py_get cls ''is_rate_table'' of
                   Inl e \<Rightarrow> Inl e
                 | Inr flag \<Rightarrow>
                     if \<not> truthy flag then Inr st1
                     else
                       (case py_get cls ''sheet_title'' of
                          Inl e \<Rightarrow> Inl e
                        | Inr t \<Rightarrow>
                            (case (if truthy t then t
                                   else JStr (fallback_title page_idx t_idx)) of
                               JStr raw_title \<Rightarrow>
                                 Inr (st1\<lparr>rate_tables := rate_tables st1 @
                                        [\<lparr>sheet_title =
                                            (if strip raw_title = [] then fallback_title page_idx t_idx
                                             else strip raw_title),
                                          data = tbl\<rparr>]\<rparr>)
                             | other \<Rightarrow> Inl AttributeError)))))"

text \<open>\<open>for t_idx, tbl in enumerate(tables)\<close> and \<open>for page_idx, page in enumerate(pdf.pages)\<close>\<close>

fun process_tables ::
  "(request \<Rightarrow> py_error + string) \<Rightarrow> (string \<Rightarrow> py_error + json) \<Rightarrow> string \<Rightarrow>
   nat \<Rightarrow> string \<Rightarrow> nat \<Rightarrow> table list \<Rightarrow> run_state \<Rightarrow> py_error + run_state" where
  "process_tables create loads model page_idx pg_text t_idx [] st = Inr st"
| "process_tables create loads model page_idx pg_text t_idx (tbl # tbls) st =
     (case process_table create loads model page_idx pg_text t_idx tbl st of
        Inl e \<Rightarrow> Inl e
      | Inr st' \<Rightarrow> process_tables create loads model page_idx pg_text (t_idx + 1) tbls st')"


text \<open>
  What pdfplumber gives for a page (its text, possibly \<open>None\<close>, and its tables) and for a
  PDF file (its name, the name without the extension, its pages).
\<close>

record page =
  extract_text :: "string option"
  extract_tables :: "table list"

record pdf =
  name :: string
  stem :: string
  pages :: "page list"

fun process_pages ::
  "(request \<Rightarrow> py_error + string) \<Rightarrow> (string \<Rightarrow> py_error + json) \<Rightarrow> string \<Rightarrow>
   nat \<Rightarrow> page list \<Rightarrow> run_state \<Rightarrow> py_error + run_state" where
  "process_pages create loads model page_idx [] st = Inr st"
| "process_pages create loads model page_idx (pg # pgs) st =
     (case process_tables create loads model page_idx
             (case extract_text pg of None \<Rightarrow> '''' | Some t \<Rightarrow> t) 0 (extract_tables pg) st of
        Inl e \<Rightarrow> Inl e
      | Inr st' \<Rightarrow> process_pages create loads model (page_idx + 1) pgs st')"

section \<open>transfer.py: writing the workbook\<close>

text \<open>
  \<open>xs[:i]\<close> for an integer \<open>i\<close>: a negative \<open>i\<close> counts from the end.  \<open>suffixed\<close> is the
  candidate the loop builds for the counter \<open>k\<close>:
  \<open>base_name[:31 - len(suffix)] + suffix\<close> with \<open>suffix = f"_{k}"\<close>.
\<close>

definition slice_to :: "int \<Rightarrow> 'a list \<Rightarrow> 'a list" where
  "slice_to i xs = (if 0 \<le> i then take (nat i) xs else take (length xs - nat (- i)) xs)"

definition suffixed :: "string \<Rightarrow> nat \<Rightarrow> string" where
  "suffixed base_name k =
     (let suffix = ''_'' @ str_nat k
      in slice_to (31 - int (length suffix)) base_name @ suffix)"

text \<open>
  \<open>while name in used_names: ...\<close> with the loop's variables \<open>name\<close> and \<open>k\<close> as arguments.
  The loop has no bound in the source; \<open>None\<close> is the run that never leaves it.
\<close>

partial_function (option) unused_name :: "string \<Rightarrow> string set \<Rightarrow> string \<Rightarrow> nat \<Rightarrow> string option" where
  "unused_name base_name used_names nm k =
     (if nm \<in> used_names then unused_name base_name used_names (suffixed base_name k) (k + 1)
      else Some nm)"

declare unused_name.simps [code]

text \<open>
  The loop over \<open>rate_tables\<close> inside the \<open>ExcelWriter\<close> block: the sheets written, in
  order, each with its name and its data.
\<close>

fun write_sheets :: "accepted list \<Rightarrow> string set \<Rightarrow> (string \<times> table) list option" where
  "write_sheets [] used_names = Some []"
| "write_sheets (tbl # tbls) used_names =
     (case unused_name (take 31 (sheet_title tbl)) used_names (take 31 (sheet_title tbl)) 1 of
        None \<Rightarrow> None
      | Some nm \<Rightarrow>
          (case write_sheets tbls (insert nm used_names) of
             None \<Rightarrow> None
           | Some sheets \<Rightarrow> Some ((nm, data tbl) # sheets)))"

text \<open>
  \<open>process_single_pdf\<close>: what is printed, the requests sent, and the workbook written
  (its path and its sheets), if any.  \<open>None\<close> is the run that does not return.
\<close>

record outcome =
  printed :: "console_line list"
  requests :: "request list"
  workbook :: "(string \<times> (string \<times> table) list) option"

definition process_single_pdf ::
  "(request \<Rightarrow> py_error + string) \<Rightarrow> (string \<Rightarrow> py_error + json) \<Rightarrow>
   pdf \<Rightarrow> string \<Rightarrow> (py_error + outcome) option" where
  "process_single_pdf create loads pdf_path model =
     (case process_pages create loads model 0 (pages pdf_path)
             \<lparr>rate_tables = [], console = [Processing (name pdf_path)], sent = []\<rparr> of
        Inl e \<Rightarrow> Some (Inl e)
      | Inr st \<Rightarrow>
          if rate_tables st = [] then
            Some (Inr \<lparr>printed = console st @ [No_rate_tables], requests = sent st,
                       workbook = None\<rparr>)
          else
            let out_path = ''output/'' @ stem pdf_path @ ''_rates.xlsx''
            in (case write_sheets (rate_tables st) {} of
                  None \<Rightarrow> None
                | Some sheets \<Rightarrow>
                    Some (Inr \<lparr>printed = console st @ [Excel_generated out_path],
                               requests = sent st,
                               workbook = Some (out_path, sheets)\<rparr>)))"

section \<open>viz_app.py: frames and the store\<close>

text \<open>
  A cell of a pandas frame.  \<open>Missing\<close> is what \<open>pd.isna\<close> is true of (\<open>NaN\<close>, \<open>None\<close>);
  numbers are reals, with the two infinities of float arithmetic beside them, so that a
  division by zero gives a value as it does in pandas and raises nothing.  Rounding,
  overflow and the sign of zero are not modelled.
\<close>

datatype pd_value = Missing | Num real | PosInf | NegInf | Str string

text \<open>
  A frame is its column headers, in order, and its rows; a row maps a header to the cell
  under it (\<open>Missing\<close> off the columns).  Headers are taken to be distinct.  Row labels are
  left out: the code selects rows with boolean masks, resets the index of what it groups
  and concatenates with \<open>ignore_index=True\<close>.
\<close>

record frame =
  columns :: "string list"
  rows :: "(string \<Rightarrow> pd_value) list"

text \<open>
  The queries copy the table, filter the copy and assign columns of the copy in place.
  To say which frame an assignment changes, frames live in a store and a variable of the
  source holds an address.  A program takes a store and gives back a result, or the
  exception it raised, and the store it leaves.
\<close>

type_synonym store = "frame list"
type_synonym 'a prog = "store \<Rightarrow> (py_error + 'a) \<times> store"

definition ret :: "'a \<Rightarrow> 'a prog" where
  "ret x = (\<lambda>h. (Inr x, h))"

definition raise :: "py_error \<Rightarrow> 'a prog" where
  "raise e = (\<lambda>h. (Inl e, h))"

definition bind :: "'a prog \<Rightarrow> ('a \<Rightarrow> 'b prog) \<Rightarrow> 'b prog" where
  "bind m f = (\<lambda>h. case m h of (Inl e, h') \<Rightarrow> (Inl e, h') | (Inr x, h') \<Rightarrow> f x h')"

text \<open>
  \<open>alloc\<close> puts a new frame at the next free address, \<open>fetch\<close> reads a frame and \<open>put\<close>
  overwrites one in place.  \<open>lift\<close> runs a computation that touches no frame.  A variable
  of the source always refers to a frame: the addresses the queries use are the table's,
  which every theorem below takes to be in the store, and those \<open>alloc\<close> has returned.
\<close>

definition alloc :: "frame \<Rightarrow> nat prog" where
  "alloc fr = (\<lambda>h. (Inr (length h), h @ [fr]))"

definition fetch :: "nat \<Rightarrow> frame prog" where
  "fetch a = (\<lambda>h. (Inr (h ! a), h))"

definition put :: "nat \<Rightarrow> frame \<Rightarrow> unit prog" where
  "put a fr = (\<lambda>h. (Inr (), h[a := fr]))"

definition lift :: "py_error + 'a \<Rightarrow> 'a prog" where
  "lift r = (case r of Inl e \<Rightarrow> raise e | Inr x \<Rightarrow> ret x)"

text \<open>
  \<open>pd.DataFrame()\<close> and the property \<open>.empty\<close>: no rows or no columns.
\<close>

definition empty_frame :: frame where
  "empty_frame = \<lparr>columns = [], rows = []\<rparr>"

definition frame_empty :: "frame \<Rightarrow> bool" where
  "frame_empty f = (rows f = [] \<or> columns f = [])"

text \<open>
  One cell of \<open>df[col] == v\<close>.  A missing cell equals nothing, itself included.
\<close>

definition cell_eq :: "pd_value \<Rightarrow> pd_value \<Rightarrow> bool" where
  "cell_eq x v = (x \<noteq> Missing \<and> v \<noteq> Missing \<and> x = v)"

text \<open>
  \<open>df.copy()\<close> makes a new frame with the same contents.  \<open>df[df[col] == v]\<close> reads the
  column (a \<open>KeyError\<close> when there is none) and makes a new frame of the rows where the mask
  holds: selection by a boolean mask never shares rows with the frame it selects from.
\<close>

definition df_copy :: "nat \<Rightarrow> nat prog" where
  "df_copy a = bind (fetch a) alloc"

definition df_where :: "nat \<Rightarrow> string \<Rightarrow> pd_value \<Rightarrow> nat prog" where
  "df_where a col v =
     bind (fetch a) (\<lambda>f.
       if col \<in> set (columns f)
       then alloc (f\<lparr>rows := filter (\<lambda>r. cell_eq (r col) v) (rows f)\<rparr>)
       else raise (KeyError col))"

text \<open>
  \<open>df[col] = ...\<close>, each new cell computed from its row: the frame at the address is
  changed in place, and a new column goes last.
\<close>

definition df_assign :: "nat \<Rightarrow> string \<Rightarrow> ((string \<Rightarrow> pd_value) \<Rightarrow> pd_value) \<Rightarrow> unit prog" where
  "df_assign a col g =
     bind (fetch a) (\<lambda>f.
       put a \<lparr>columns = (if col \<in> set (columns f) then columns f else columns f @ [col]),
                rows = map (\<lambda>r. r(col := g r)) (rows f)\<rparr>)"

text \<open>
  \<open>df[[c1, ..., cn]]\<close>: the listed columns, or a \<open>KeyError\<close> when one is absent (pandas
  names all the absent ones in the message, the model the first).
\<close>

definition select_columns :: "frame \<Rightarrow> string list \<Rightarrow> py_error + frame" where
  "select_columns f cols =
     (case filter (\<lambda>c. c \<notin> set (columns f)) cols of
        c # cs \<Rightarrow> Inl (KeyError c)
      | [] \<Rightarrow> Inr \<lparr>columns = cols,
                  rows = map (\<lambda>r c. if c \<in> set cols then r c else Missing) (rows f)\<rparr>)"

text \<open>
  \<open>s.replace(old, new)\<close>: every occurrence of \<open>old\<close> in \<open>s\<close>, found from the left without
  overlap, is replaced.  With an empty \<open>old\<close> Python inserts \<open>new\<close> before every character
  and at the end.
\<close>

fun str_replace :: "string \<Rightarrow> string \<Rightarrow> string \<Rightarrow> string" where
  "str_replace [] new s = new @ concat (map (\<lambda>c. c # new) s)"
| "str_replace (p # ps) new [] = []"
| "str_replace (p # ps) new (c # cs) =
     (if starts_with (c # cs) (p # ps) then new @ str_replace (p # ps) new (drop (length ps) cs)
      else c # str_replace (p # ps) new cs)"

text \<open>
  \<open>comp.replace(" rates", "")\<close>, lines 103, 134 and 194.
\<close>

definition display_name :: "string \<Rightarrow> string" where
  "display_name cmp_col = str_replace '' rates'' '''' cmp_col"

text \<open>
  \<open>get_company_columns\<close>, lines 73-83: the headers outside the seven demographic ones.
\<close>

definition base_cols :: "string list" where
  "base_cols = [''Age'', ''Gender'', ''Occupation'', ''Benefit'', ''BenefitType'',
                ''BenefitPeriod'', ''WaitingPeriod'']"

definition get_company_columns :: "frame \<Rightarrow> string list" where
  "get_company_columns df = filter (\<lambda>c. c \<notin> set base_cols) (columns df)"

text \<open>
  Lines 98-102, one turn of the loop of \<open>build_lookup\<close>: \<open>rate\<close> stays \<open>None\<close> when the query
  is empty or the company's column has no value in it, and is the first value of the
  column otherwise.  \<open>None\<close> in the list of records is a missing cell of the frame built
  from it; a frame built from no record has no column.
\<close>

definition first_rate :: "frame \<Rightarrow> string \<Rightarrow> pd_value" where
  "first_rate query cmp_col =
     (if frame_empty query then Missing
      else case filter (\<lambda>x. x \<noteq> Missing) (map (\<lambda>r. r cmp_col) (rows query)) of
             [] \<Rightarrow> Missing
           | x # xs \<Rightarrow> x)"

definition records_frame :: "(string \<times> pd_value) list \<Rightarrow> frame" where
  "records_frame recs =
     \<lparr>columns = (if recs = [] then [] else [''Company'', ''Rate'']),
      rows = map (\<lambda>(company, rate). (\<lambda>c. Missing)(''Company'' := Str company, ''Rate'' := rate)) recs\<rparr>"

text \<open>
  Line 105: \<open>"no available" if pd.isna(x) else x\<close>.
\<close>

definition display_of :: "pd_value \<Rightarrow> pd_value" where
  "display_of x = (if x = Missing then Str ''no available'' else x)"

text \<open>
  \<open>build_lookup\<close>, lines 86-106.  The test for \<open>BenefitType\<close> reads the table as it is on
  entry.  With no company column \<open>result["Rate"]\<close> raises a \<open>KeyError\<close>.
\<close>

definition build_lookup :: "nat \<Rightarrow> pd_value \<Rightarrow> string \<Rightarrow> string \<Rightarrow> string \<Rightarrow> frame prog" where
  "build_lookup df age gender occupation benefit =
     bind (fetch df) (\<lambda>df0.
     bind (df_copy df) (\<lambda>query.
     bind (df_where query ''Age'' age) (\<lambda>query.
     bind (df_where query ''Gender'' (Str gender)) (\<lambda>query.
     bind (df_where query ''Occupation'' (Str occupation)) (\<lambda>query.
     bind (if ''BenefitType'' \<in> set (columns df0)
           then df_where query ''BenefitType'' (Str benefit) else ret query) (\<lambda>query.
     bind (fetch df) (\<lambda>df1.
     bind (fetch query) (\<lambda>q.
     bind (alloc (records_frame
                    (map (\<lambda>cmp_col. (display_name cmp_col, first_rate q cmp_col))
                         (get_company_columns df1)))) (\<lambda>result.
     bind (fetch result) (\<lambda>r.
     bind (if ''Rate'' \<in> set (columns r)
           then df_assign result ''Display'' (\<lambda>row. display_of (row ''Rate''))
           else raise (KeyError ''Rate'')) (\<lambda>u.
     bind (fetch result) (\<lambda>r.
       lift (select_columns r [''Company'', ''Display''])))))))))))))"

section \<open>viz_app.py: the trend\<close>

text \<open>
  \<open>pd.to_numeric(column, errors="coerce")\<close>, cell by cell: a number stays, a string
  becomes the number it spells or a missing cell.  Which strings spell which numbers is
  left to the parameter \<open>parse\<close>, which gives finite numbers only; nothing proved below
  depends on it.
\<close>

definition to_numeric :: "(string \<Rightarrow> real option) \<Rightarrow> pd_value \<Rightarrow> pd_value" where
  "to_numeric parse x =
     (case x of
        Str s \<Rightarrow> (case parse s of None \<Rightarrow> Missing | Some r \<Rightarrow> Num r)
      | other \<Rightarrow> other)"

text \<open>
  \<open>filtered[c] = pd.to_numeric(filtered[c], errors="coerce")\<close>: reads the column (a
  \<open>KeyError\<close> when there is none) and assigns it in place.
\<close>

definition df_to_numeric :: "(string \<Rightarrow> real option) \<Rightarrow> nat \<Rightarrow> string \<Rightarrow> unit prog" where
  "df_to_numeric parse a c =
     bind (fetch a) (\<lambda>f.
       if c \<in> set (columns f) then df_assign a c (\<lambda>row. to_numeric parse (row c))
       else raise (KeyError c))"

text \<open>
  \<open>if period and col in filtered.columns: filtered = filtered[filtered[col] == period]\<close>;
  \<open>None\<close> and the empty string are both false.
\<close>

definition opt_where :: "nat \<Rightarrow> string option \<Rightarrow> string \<Rightarrow> nat prog" where
  "opt_where a period col =
     (case period of
        None \<Rightarrow> ret a
      | Some p \<Rightarrow>
          if p = [] then ret a
          else bind (fetch a) (\<lambda>f.
                 if col \<in> set (columns f) then df_where a col (Str p) else ret a))"

text \<open>
  The filters, written out twice in the source (lines 111-120 and 144-153): copy the
  table, then keep the rows of the given gender, occupation and, when the table has the
  column, benefit type, then those of the benefit period and the waiting period when they
  are given.  The result is the address of the filtered copy.
\<close>

definition apply_filters ::
  "nat \<Rightarrow> string \<Rightarrow> string \<Rightarrow> string \<Rightarrow> string option \<Rightarrow> string option \<Rightarrow> nat prog" where
  "apply_filters df gender occupation benefit benefit_period waiting_period =
     bind (fetch df) (\<lambda>df0.
     bind (df_copy df) (\<lambda>filtered.
     bind (df_where filtered ''Gender'' (Str gender)) (\<lambda>filtered.
     bind (df_where filtered ''Occupation'' (Str occupation)) (\<lambda>filtered.
     bind (if ''BenefitType'' \<in> set (columns df0)
           then df_where filtered ''BenefitType'' (Str benefit) else ret filtered) (\<lambda>filtered.
     bind (opt_where filtered benefit_period ''BenefitPeriod'') (\<lambda>filtered.
       opt_where filtered waiting_period ''WaitingPeriod''))))))"

text \<open>
  Lines 126-130: every melted column is coerced in place, in the filtered copy, and
  reported as missing when nothing is left in it.
\<close>

fun coerce_and_report :: "(string \<Rightarrow> real option) \<Rightarrow> nat \<Rightarrow> string list \<Rightarrow> string list prog" where
  "coerce_and_report parse filtered [] = ret []"
| "coerce_and_report parse filtered (c # cs) =
     bind (df_to_numeric parse filtered c) (\<lambda>u.
     bind (fetch filtered) (\<lambda>f.
     bind (coerce_and_report parse filtered cs) (\<lambda>missing.
       ret ((if filter (\<lambda>x. x \<noteq> Missing) (map (\<lambda>r. r c) (rows f)) = [] then [c] else [])
            @ missing))))"

text \<open>
  \<open>melt(id_vars=["Age"], var_name="Company", value_name="Rate")\<close> stacks the value
  columns, one after the other; \<open>dropna(subset=cols)\<close> drops the rows with a missing cell
  in one of \<open>cols\<close>; \<open>.str.replace(" rates", "", regex=False)\<close> rewrites the strings of a
  column.
\<close>

definition melt :: "frame \<Rightarrow> string list \<Rightarrow> frame" where
  "melt f value_vars =
     \<lparr>columns = [''Age'', ''Company'', ''Rate''],
      rows = concat (map (\<lambda>c. map (\<lambda>r. (\<lambda>x. Missing)
                                          (''Age'' := r ''Age'', ''Company'' := Str c, ''Rate'' := r c))
                                   (rows f)) value_vars)\<rparr>"

definition dropna :: "string list \<Rightarrow> frame \<Rightarrow> frame" where
  "dropna cols f = f\<lparr>rows := filter (\<lambda>r. \<forall>c \<in> set cols. r c \<noteq> Missing) (rows f)\<rparr>"

definition replace_in_cell :: "pd_value \<Rightarrow> pd_value" where
  "replace_in_cell x = (case x of Str s \<Rightarrow> Str (display_name s) | other \<Rightarrow> other)"

text \<open>
  \<open>build_trend\<close>, lines 109-135.
\<close>

definition build_trend ::
  "(string \<Rightarrow> real option) \<Rightarrow> nat \<Rightarrow> string list \<Rightarrow> string \<Rightarrow> string \<Rightarrow> string \<Rightarrow>
   string option \<Rightarrow> string option \<Rightarrow> (frame \<times> string list) prog" where
  "build_trend parse df companies gender occupation benefit benefit_period waiting_period =
     bind (apply_filters df gender occupation benefit benefit_period waiting_period) (\<lambda>filtered.
     bind (fetch df) (\<lambda>df1.
       let melt_cols = filter (\<lambda>c. companies = [] \<or> c \<in> set companies) (get_company_columns df1)
       in if melt_cols = [] then ret (empty_frame, [])
          else
            bind (coerce_and_report parse filtered melt_cols) (\<lambda>missing.
            bind (fetch filtered) (\<lambda>f.
            bind (lift (select_columns f (''Age'' # melt_cols))) (\<lambda>wide.
            bind (alloc (dropna [''Rate''] (melt wide melt_cols))) (\<lambda>long_df.
            bind (df_assign long_df ''Company'' (\<lambda>row. replace_in_cell (row ''Company''))) (\<lambda>u.
            bind (fetch long_df) (\<lambda>out.
              ret (out, missing)))))))))"

section \<open>viz_app.py: the relative trend\<close>

text \<open>
  \<open>groupby("Age")\<close> gives its groups in the order of their keys.  Numbers are ordered as
  numbers and strings as strings; how keys of different kinds compare is a choice of the
  model (pandas sorts such keys when it can), and nothing proved below depends on the
  order.
\<close>

fun lex_le :: "nat list \<Rightarrow> nat list \<Rightarrow> bool" where
  "lex_le [] ys = True"
| "lex_le (x # xs) [] = False"
| "lex_le (x # xs) (y # ys) = (x < y \<or> (x = y \<and> lex_le xs ys))"

fun key_le :: "pd_value \<Rightarrow> pd_value \<Rightarrow> bool" where
  "key_le (Num x) (Num y) = (x \<le> y)"
| "key_le (Str s) (Str t) = lex_le (map of_char s) (map of_char t)"
| "key_le NegInf y = True"
| "key_le x NegInf = False"
| "key_le x PosInf = (case x of Str s \<Rightarrow> False | other \<Rightarrow> True)"
| "key_le PosInf y = (case y of Str s \<Rightarrow> True | other \<Rightarrow> False)"
| "key_le Missing y = True"
| "key_le x Missing = False"
| "key_le (Num x) (Str t) = True"
| "key_le (Str s) (Num y) = False"

fun insort_key_le :: "pd_value \<Rightarrow> pd_value list \<Rightarrow> pd_value list" where
  "insort_key_le x [] = [x]"
| "insort_key_le x (y # ys) = (if key_le x y then x # y # ys else y # insort_key_le x ys)"

definition sort_keys :: "pd_value list \<Rightarrow> pd_value list" where
  "sort_keys ks = foldr insort_key_le ks []"

text \<open>
  The mean of a group, whose cells are numbers or infinities once the column is coerced
  and the missing cells are dropped: infinities of both signs give \<open>NaN\<close>, of one sign that
  infinity.  Any other cell, which the code never has here, gives \<open>NaN\<close> as well.
\<close>

definition mean :: "pd_value list \<Rightarrow> pd_value" where
  "mean xs =
     (if list_ex (\<lambda>x. case x of Num r \<Rightarrow> False | PosInf \<Rightarrow> False | NegInf \<Rightarrow> False | other \<Rightarrow> True) xs
        \<or> (PosInf \<in> set xs \<and> NegInf \<in> set xs) then Missing
      else if PosInf \<in> set xs then PosInf
      else if NegInf \<in> set xs then NegInf
      else Num (sum_list (map (\<lambda>x. case x of Num r \<Rightarrow> r | other \<Rightarrow> 0) xs) / real (length xs)))"

text \<open>
  \<open>f[["Age", c]].dropna(subset=["Age", c]).groupby("Age")[c].mean()\<close>: the series of
  the means of column \<open>c\<close> by age, over the rows where neither is missing, as pairs of a key
  and a mean.  It is meant for a column \<open>c\<close> other than \<open>Age\<close>.
\<close>

definition group_mean :: "frame \<Rightarrow> string \<Rightarrow> py_error + (pd_value \<times> pd_value) list" where
  "group_mean f c =
     (if ''Age'' \<notin> set (columns f) then Inl (KeyError ''Age'')
      else if c \<notin> set (columns f) then Inl (KeyError c)
      else
        let kept = filter (\<lambda>r. r ''Age'' \<noteq> Missing \<and> r c \<noteq> Missing) (rows f)
        in Inr (map (\<lambda>k. (k, mean (map (\<lambda>r. r c) (filter (\<lambda>r. r ''Age'' = k) kept))))
                    (sort_keys (remdups (map (\<lambda>r. r ''Age'') kept)))))"

text \<open>
  \<open>(comp / base) * 100\<close> on floats: a division by zero is an infinity, or \<open>NaN\<close> for
  \<open>0 / 0\<close>.
\<close>

definition ratio :: "pd_value \<Rightarrow> pd_value \<Rightarrow> pd_value" where
  "ratio c b =
     (case (c, b) of
        (Num x, Num y) \<Rightarrow>
          if y = 0 then (if x = 0 then Missing else if 0 < x then PosInf else NegInf)
          else Num (x / y * 100)
      | (Num x, PosInf) \<Rightarrow> Num 0
      | (Num x, NegInf) \<Rightarrow> Num 0
      | (PosInf, Num y) \<Rightarrow> if y < 0 then NegInf else PosInf
      | (NegInf, Num y) \<Rightarrow> if y < 0 then PosInf else NegInf
      | other \<Rightarrow> Missing)"

text \<open>
  \<open>base_series.reset_index()\<close>: the keys become the column \<open>Age\<close>, the means the column
  named after the company.
\<close>

definition series_frame :: "string \<Rightarrow> (pd_value \<times> pd_value) list \<Rightarrow> frame" where
  "series_frame c series =
     \<lparr>columns = [''Age'', c],
      rows = map (\<lambda>(k, m). (\<lambda>x. Missing)(''Age'' := k, c := m)) series\<rparr>"

text \<open>
  \<open>pd.DataFrame({"base": base_series, "comp": comp_series}).dropna()\<close>: one row for each
  age of either series, then only the ages where both have a value.  The ages are kept
  as the column \<open>Age\<close> from the start, where the source brings them back with
  \<open>reset_index()\<close> at line 188.
\<close>

definition joined_frame :: "(pd_value \<times> pd_value) list \<Rightarrow> (pd_value \<times> pd_value) list \<Rightarrow> frame" where
  "joined_frame base_series cmp_series =
     dropna [''base'', ''comp'']
       \<lparr>columns = [''Age'', ''base'', ''comp''],
        rows = map (\<lambda>k. (\<lambda>x. Missing)
                          (''Age'' := k,
                           ''base'' := (case map_of base_series k of None \<Rightarrow> Missing | Some m \<Rightarrow> m),
                           ''comp'' := (case map_of cmp_series k of None \<Rightarrow> Missing | Some m \<Rightarrow> m)))
                   (sort_keys (remdups (map fst base_series @ map fst cmp_series)))\<rparr>"

text \<open>
  The loop of lines 175-188 over the compare companies.  It gives the blocks appended
  to \<open>rows\<close> and the companies appended to \<open>missing\<close>.
\<close>

fun compare_loop ::
  "nat \<Rightarrow> (pd_value \<times> pd_value) list \<Rightarrow> string list \<Rightarrow> (frame list \<times> string list) prog" where
  "compare_loop filtered base_series [] = ret ([], [])"
| "compare_loop filtered base_series (cmp_col # others) =
     bind (fetch filtered) (\<lambda>f.
     bind (lift (group_mean f cmp_col)) (\<lambda>cmp_series.
     bind (alloc (joined_frame base_series cmp_series)) (\<lambda>joined.
     bind (fetch joined) (\<lambda>j.
       if rows j = [] then
         bind (compare_loop filtered base_series others) (\<lambda>(blocks, missing).
           ret (blocks, cmp_col # missing))
       else
         bind (df_assign joined ''Company'' (\<lambda>row. Str cmp_col)) (\<lambda>u.
         bind (df_assign joined ''Ratio'' (\<lambda>row. ratio (row ''comp'') (row ''base''))) (\<lambda>u.
         bind (fetch joined) (\<lambda>j.
         bind (lift (select_columns j [''Age'', ''Company'', ''Ratio''])) (\<lambda>block.
         bind (compare_loop filtered base_series others) (\<lambda>(blocks, missing).
           ret (block # blocks, missing))))))))))"

text \<open>
  Lines 156-157, over the columns computed at line 155.
\<close>

fun coerce_all :: "(string \<Rightarrow> real option) \<Rightarrow> nat \<Rightarrow> string list \<Rightarrow> unit prog" where
  "coerce_all parse filtered [] = ret ()"
| "coerce_all parse filtered (c # cs) =
     bind (df_to_numeric parse filtered c) (\<lambda>u. coerce_all parse filtered cs)"

text \<open>
  \<open>pd.concat(rows, ignore_index=True)\<close>.
\<close>

definition concat_frames :: "frame list \<Rightarrow> frame" where
  "concat_frames blocks =
     \<lparr>columns = remdups (concat (map columns blocks)), rows = concat (map rows blocks)\<rparr>"

text \<open>
  Lines 167-172: what \<open>rows\<close> holds before the loop, nothing when the baseline series is
  empty and the baseline's block with the ratio \<open>100.0\<close> otherwise.
\<close>

definition baseline_block :: "string \<Rightarrow> (pd_value \<times> pd_value) list \<Rightarrow> frame list prog" where
  "baseline_block base_company base_series =
     (if base_series = [] then ret []
      else
        bind (alloc (series_frame base_company base_series)) (\<lambda>base_df.
        bind (df_assign base_df ''Company'' (\<lambda>row. Str base_company)) (\<lambda>u.
        bind (df_assign base_df ''Ratio'' (\<lambda>row. Num 100)) (\<lambda>u.
        bind (fetch base_df) (\<lambda>b.
        bind (lift (select_columns b [''Age'', ''Company'', ''Ratio''])) (\<lambda>block.
          ret [block]))))))"

text \<open>
  \<open>build_relative_trend\<close>, lines 138-195.  The third component of the result is
  \<open>baseline_missing\<close>.
\<close>

definition build_relative_trend ::
  "(string \<Rightarrow> real option) \<Rightarrow> nat \<Rightarrow> string \<Rightarrow> string list \<Rightarrow> string \<Rightarrow> string \<Rightarrow> string \<Rightarrow>
   string option \<Rightarrow> string option \<Rightarrow> (frame \<times> string list \<times> bool) prog" where
  "build_relative_trend parse df base_company compare_companies gender occupation benefit
       benefit_period waiting_period =
     (if base_company = [] \<or> compare_companies = [] then ret (empty_frame, [], False)
      else
        bind (apply_filters df gender occupation benefit benefit_period waiting_period) (\<lambda>filtered.
        bind (fetch filtered) (\<lambda>f.
        bind (coerce_all parse filtered
                (filter (\<lambda>c. c \<in> set (columns f)) (base_company # compare_companies))) (\<lambda>u.
        bind (fetch filtered) (\<lambda>f.
        bind (lift (group_mean f base_company)) (\<lambda>base_series.
        bind (baseline_block base_company base_series) (\<lambda>first_blocks.
        bind (compare_loop filtered base_series compare_companies) (\<lambda>(blocks, missing).
          if first_blocks @ blocks = [] then ret (empty_frame, missing, base_series = [])
          else
            bind (alloc (concat_frames (first_blocks @ blocks))) (\<lambda>result.
            bind (df_assign result ''Company'' (\<lambda>row. replace_in_cell (row ''Company''))) (\<lambda>u.
            bind (fetch result) (\<lambda>out.
              ret (out, missing, base_series = []))))))))))))"

section \<open>Programs on the store\<close>

text \<open>
  \<open>keeps n m Q\<close>: run from a store of at least \<open>n\<close> frames, the program \<open>m\<close> leaves the
  first \<open>n\<close> frames as they were, and a result it returns satisfies \<open>Q\<close>.
\<close>

definition keeps :: "nat \<Rightarrow> 'a prog \<Rightarrow> ('a \<Rightarrow> bool) \<Rightarrow> bool" where
  "keeps n m Q =
     (\<forall>h r h'. n \<le> length h \<longrightarrow> m h = (r, h') \<longrightarrow>
        n \<le> length h' \<and> take n h' = take n h \<and> (\<forall>x. r = Inr x \<longrightarrow> Q x))"

text \<open>
  Two runs of a query are compared through their stores.  Two stores are related when
  the table is the same frame in both (at \<open>d1\<close> in the first and \<open>d2\<close> in the second) and
  the frames made since the queries started (from \<open>n1\<close> and from \<open>n2\<close> on) are the same, in
  the same order.  Two addresses are paired when they are the same frame made by the
  queries.  \<open>agree\<close>: from related stores, two programs leave related stores and both
  raise the same exception, or both return, with results related by \<open>V\<close>.
\<close>

definition related :: "nat \<Rightarrow> nat \<Rightarrow> nat \<Rightarrow> nat \<Rightarrow> store \<Rightarrow> store \<Rightarrow> bool" where
  "related d1 n1 d2 n2 h1 h2 =
     (d1 < n1 \<and> d2 < n2 \<and> n1 \<le> length h1 \<and> n2 \<le> length h2
      \<and> h1 ! d1 = h2 ! d2 \<and> drop n1 h1 = drop n2 h2)"

definition local_pair :: "nat \<Rightarrow> nat \<Rightarrow> nat \<Rightarrow> nat \<Rightarrow> bool" where
  "local_pair n1 n2 a1 a2 = (n1 \<le> a1 \<and> n2 \<le> a2 \<and> a1 - n1 = a2 - n2)"

definition agree ::
  "nat \<Rightarrow> nat \<Rightarrow> nat \<Rightarrow> nat \<Rightarrow> 'a prog \<Rightarrow> 'b prog \<Rightarrow> ('a \<Rightarrow> 'b \<Rightarrow> bool) \<Rightarrow> bool" where
  "agree d1 n1 d2 n2 m1 m2 V =
     (\<forall>h1 h2 r1 h1' r2 h2'.
        related d1 n1 d2 n2 h1 h2 \<longrightarrow> m1 h1 = (r1, h1') \<longrightarrow> m2 h2 = (r2, h2') \<longrightarrow>
          related d1 n1 d2 n2 h1' h2'
          \<and> ((\<exists>e. r1 = Inl e \<and> r2 = Inl e) \<or> (\<exists>x1 x2. r1 = Inr x1 \<and> r2 = Inr x2 \<and> V x1 x2)))"

text \<open>
  \<open>local_frame h h' a F\<close>: the store \<open>h'\<close> extends \<open>h\<close>, and \<open>a\<close> is the address of a frame
  made since, which holds \<open>F\<close>.  \<open>grown h h'\<close>: the frames of \<open>h\<close> are unchanged in \<open>h'\<close>.
\<close>

definition local_frame :: "store \<Rightarrow> store \<Rightarrow> nat \<Rightarrow> frame \<Rightarrow> bool" where
  "local_frame h h' a F = (length h \<le> a \<and> a < length h' \<and> take (length h) h' = h \<and> h' ! a = F)"

definition grown :: "store \<Rightarrow> store \<Rightarrow> bool" where
  "grown h h' = (length h \<le> length h' \<and> (\<forall>a < length h. h' ! a = h ! a))"

text \<open>
  A frame after the columns \<open>cs\<close> have been coerced to numbers.
\<close>

definition coerced :: "(string \<Rightarrow> real option) \<Rightarrow> string list \<Rightarrow> frame \<Rightarrow> frame" where
  "coerced parse cs F =
     F\<lparr>rows := map (\<lambda>r c. if c \<in> set cs then to_numeric parse (r c) else r c) (rows F)\<rparr>"

section \<open>Notions of the specification\<close>

text \<open>
  A row passes the filters of the trend queries: it has the gender and the occupation
  asked for, the benefit type when the table has that column, and the benefit period and
  the waiting period when one is given and the table has the column.
  \<open>apply_filters_success\<close> below shows that these are the rows \<open>apply_filters\<close> keeps.
\<close>

definition passes_filters ::
  "string list \<Rightarrow> string \<Rightarrow> string \<Rightarrow> string \<Rightarrow> string option \<Rightarrow> string option \<Rightarrow>
   (string \<Rightarrow> pd_value) \<Rightarrow> bool" where
  "passes_filters cols gender occupation benefit benefit_period waiting_period r =
     (cell_eq (r ''Gender'') (Str gender)
      \<and> cell_eq (r ''Occupation'') (Str occupation)
      \<and> (''BenefitType'' \<in> set cols \<longrightarrow> cell_eq (r ''BenefitType'') (Str benefit))
      \<and> (case benefit_period of
            None \<Rightarrow> True
          | Some p \<Rightarrow> p \<noteq> [] \<and> ''BenefitPeriod'' \<in> set cols \<longrightarrow> cell_eq (r ''BenefitPeriod'') (Str p))
      \<and> (case waiting_period of
            None \<Rightarrow> True
          | Some p \<Rightarrow> p \<noteq> [] \<and> ''WaitingPeriod'' \<in> set cols \<longrightarrow> cell_eq (r ''WaitingPeriod'') (Str p)))"

text \<open>
  The display name as the specification words it, for comparison with \<open>display_name\<close>:
  a header that ends in \<open>" rates"\<close> loses these six characters, any other header is kept.
\<close>

definition strip_rates_suffix :: "string \<Rightarrow> string" where
  "strip_rates_suffix s =
     (if 6 \<le> length s \<and> drop (length s - 6) s = '' rates'' then take (length s - 6) s else s)"

section \<open>Sample inputs\<close>

text \<open>
  A preview of four rows of four numeric cells, which passes both local gates; a service
  that is down; a service that answers; and a parser that reads the answer as an accepted
  table.
\<close>

definition rates_preview :: table where
  "rates_preview =
     [[Some ''18'', Some ''0.03'', Some ''0.05'', Some ''1.20''],
      [Some ''19'', Some ''0.03'', Some ''0.05'', Some ''1.21''],
      [Some ''20'', Some ''0.04'', Some ''0.06'', Some ''1.22''],
      [Some ''21'', Some ''0.04'', Some ''0.06'', Some ''1.23'']]"


definition service_up :: "request \<Rightarrow> py_error + string" where
  "service_up rq = Inr ''accepted''"

definition loads_accepted :: "string \<Rightarrow> py_error + json" where
  "loads_accepted raw =
     Inr (JDict [(''is_rate_table'', JBool True), (''sheet_title'', JStr ''Death cover rates'')])"

text \<open>
  A table of three rows and two companies.  At age 30 only the first company has a
  rate; the third row is the only one for women.  A table whose only company header has
  \<open>" rates"\<close> in the middle as well as at the end.  A number parser that reads no string.
\<close>

definition acme :: frame where
  "acme = \<lparr>columns = [''Age'', ''Gender'', ''Occupation'', ''BenefitType'', ''Acme rates'', ''Beta rates''],
           rows = [(\<lambda>c. Missing)(''Age'' := Num 30, ''Gender'' := Str ''M'', ''Occupation'' := Str ''White'',
                                    ''BenefitType'' := Str ''Death'', ''Acme rates'' := Num 2),
                   (\<lambda>c. Missing)(''Age'' := Num 40, ''Gender'' := Str ''M'', ''Occupation'' := Str ''White'',
                                    ''BenefitType'' := Str ''Death'', ''Acme rates'' := Num 4, ''Beta rates'' := Num 5),
                   (\<lambda>c. Missing)(''Age'' := Num 50, ''Gender'' := Str ''F'', ''Occupation'' := Str ''White'',
                                    ''BenefitType'' := Str ''Death'', ''Acme rates'' := Num 6)]\<rparr>"

definition low :: frame where
  "low = \<lparr>columns = [''Age'', ''Gender'', ''Occupation'', ''BenefitType'', ''Low rates Fund rates''],
          rows = [(\<lambda>c. Missing)(''Age'' := Num 30, ''Gender'' := Str ''M'', ''Occupation'' := Str ''White'',
                                   ''BenefitType'' := Str ''Death'', ''Low rates Fund rates'' := Num 2)]\<rparr>"

definition no_parse :: "string \<Rightarrow> real option" where
  "no_parse s = None"

section \<open>The structural gate\<close>

text \<open>
  C1.  A preview with fewer than 4 rows, or whose longest row has fewer than 4 cells
  (width 0 for an empty preview), is classified as not a rate table, with an empty sheet
  title, and no request is sent to the remote service, whatever the service, the parser,
  the page and the model name are.
\<close>

theorem structural_gate_rejects:
  assumes "length preview < 4 \<or> num_cols preview < 4"
  shows "classify_table_with_model create loads pg_index pg_text preview model
           = (Inr (JDict [(''is_rate_table'', JBool False), (''sheet_title'', JStr '''')]), [])"
  using assms by (simp add: classify_table_with_model_def rejected_def)

theorem structural_gate_rejects_witness:
  "(length [[Some ''Name'', Some ''Phone'', Some ''1'', Some ''2'', Some ''3''],
            [Some ''Ann'', Some ''555'', Some ''1'', Some ''2'', Some ''3''],
            [Some ''Bob'', Some ''556'', Some ''1'', Some ''2'', Some ''3'']] < 4
    \<or> num_cols [[Some ''Name'', Some ''Phone'', Some ''1'', Some ''2'', Some ''3''],
            [Some ''Ann'', Some ''555'', Some ''1'', Some ''2'', Some ''3''],
            [Some ''Bob'', Some ''556'', Some ''1'', Some ''2'', Some ''3'']] < 4)
   \<and> classify_table_with_model (\<lambda>rq. Inr ''{}'') (\<lambda>raw. Inr (JDict [])) 0 (Some ''Call us'')
        [[Some ''Name'', Some ''Phone'', Some ''1'', Some ''2'', Some ''3''],
         [Some ''Ann'', Some ''555'', Some ''1'', Some ''2'', Some ''3''],
         [Some ''Bob'', Some ''556'', Some ''1'', Some ''2'', Some ''3'']] ''gpt-4o-mini''
       = (Inr (JDict [(''is_rate_table'', JBool False), (''sheet_title'', JStr '''')]), [])"
  using structural_gate_rejects
    [of "[[Some ''Name'', Some ''Phone'', Some ''1'', Some ''2'', Some ''3''],
          [Some ''Ann'', Some ''555'', Some ''1'', Some ''2'', Some ''3''],
          [Some ''Bob'', Some ''556'', Some ''1'', Some ''2'', Some ''3'']]"
        "\<lambda>rq. Inr ''{}''" "\<lambda>raw. Inr (JDict [])" 0 "Some ''Call us''" "''gpt-4o-mini''"]
  by simp

section \<open>The numeric-density gate\<close>

text \<open>
  When every row has at least one cell, the count the source computes is the number of
  rows whose share of digit cells is at least one half; and whenever the count is
  computed and is below 2, the table is rejected without a request.
\<close>

lemma numeric_row_count_nonempty_rows:
  "\<forall>r \<in> set preview. r \<noteq> [] \<Longrightarrow>
   numeric_row_count preview
     = Inr (length (filter (\<lambda>r. real (length (filter digit_cell r)) / real (length r) \<ge> 1 / 2) preview))"
  by (induction preview) (auto simp: is_numeric_row_def)

lemma numeric_gate_rejects_when_counted:
  assumes "\<not> (length preview < 4 \<or> num_cols preview < 4)"
    and "numeric_row_count preview = Inr n" and "n < 2"
  shows "classify_table_with_model create loads pg_index pg_text preview model = (Inr rejected, [])"
  using assms by (simp add: classify_table_with_model_def)


text \<open>
  C2.  The claim: a preview that passes the structural gate and has fewer than 2 numeric
  rows is rejected, with no request.  The source does not reach that decision on a
  preview with an empty row.  The preview below has four rows, its longest row has four
  cells, and none of its rows has a digit in half of its cells (the empty row has no
  cells at all), so it has fewer than 2 numeric rows; the classifier raises
  \<open>ZeroDivisionError\<close> on it instead of returning the rejection.
\<close>

theorem numeric_gate_raises_on_empty_row:
  "\<not> (length [[], [Some ''Name'', Some ''Phone'', Some ''Fax'', None],
               [Some ''Ann'', Some ''a'', Some ''b'', None],
               [Some ''Bob'', Some ''c'', Some ''d'', None]] < 4
      \<or> num_cols [[], [Some ''Name'', Some ''Phone'', Some ''Fax'', None],
               [Some ''Ann'', Some ''a'', Some ''b'', None],
               [Some ''Bob'', Some ''c'', Some ''d'', None]] < 4)
   \<and> length (filter (\<lambda>r. real (length (filter digit_cell r)) / real (length r) \<ge> 1 / 2)
              [[], [Some ''Name'', Some ''Phone'', Some ''Fax'', None],
               [Some ''Ann'', Some ''a'', Some ''b'', None],
               [Some ''Bob'', Some ''c'', Some ''d'', None]]) < 2
   \<and> classify_table_with_model service_up loads_accepted 0 (Some ''Contact us'')
         [[], [Some ''Name'', Some ''Phone'', Some ''Fax'', None],
          [Some ''Ann'', Some ''a'', Some ''b'', None],
          [Some ''Bob'', Some ''c'', Some ''d'', None]] ''gpt-4o-mini''
       = (Inl ZeroDivisionError, [])"
  by (simp add: classify_table_with_model_def num_cols_def is_numeric_row_def digit_cell_def isdigit_def)

text \<open>
  C10.  The claim: on a preview that passes the structural gate the per-row division never
  divides by zero, also when a row of length 0 stands beside longer rows.  The source
  divides by \<open>len(row)\<close> unguarded: the preview below passes the structural gate (four
  rows, the longest of four cells), its first row is empty, and the classifier raises
  \<open>ZeroDivisionError\<close> without reaching a decision.
\<close>

theorem empty_row_raises_zero_division:
  "\<not> (length ([] # tl rates_preview) < 4 \<or> num_cols ([] # tl rates_preview) < 4)
   \<and> is_numeric_row [] = Inl ZeroDivisionError
   \<and> classify_table_with_model service_up loads_accepted 0 (Some ''Death cover rates'')
         ([] # tl rates_preview) ''gpt-4o-mini''
       = (Inl ZeroDivisionError, [])"
  by (simp add: classify_table_with_model_def num_cols_def is_numeric_row_def rates_preview_def)

section \<open>Classification failures\<close>





section \<open>The keyword signal\<close>












section \<open>Sheet names\<close>



















section \<open>Running the store operations\<close>

text \<open>
  One step of a program, as an equation on the store it starts from.
\<close>

lemma bind_run:
  "bind m f h = (case m h of (Inl e, h') \<Rightarrow> (Inl e, h') | (Inr x, h') \<Rightarrow> f x h')"
  by (simp add: bind_def)

lemma bind_Inr: "m h = (Inr x, h') \<Longrightarrow> bind m f h = f x h'"
  by (simp add: bind_def)

lemma ret_run: "ret x h = (Inr x, h)"
  by (simp add: ret_def)

lemma raise_run: "raise e h = (Inl e, h)"
  by (simp add: raise_def)

lemma alloc_run: "alloc fr h = (Inr (length h), h @ [fr])"
  by (simp add: alloc_def)

lemma fetch_run: "fetch a h = (Inr (h ! a), h)"
  by (simp add: fetch_def)

lemma put_run: "put a fr h = (Inr (), h[a := fr])"
  by (simp add: put_def)

lemma lift_Inr_run: "lift (Inr x) h = (Inr x, h)"
  by (simp add: lift_def ret_def)

lemma lift_Inl_run: "lift (Inl e) h = (Inl e, h)"
  by (simp add: lift_def raise_def)

lemma df_copy_run: "df_copy a h = (Inr (length h), h @ [h ! a])"
  by (simp add: df_copy_def bind_run fetch_run alloc_run)

lemma df_where_run:
  "col \<in> set (columns (h ! a)) \<Longrightarrow>
   df_where a col v h
     = (Inr (length h), h @ [(h ! a)\<lparr>rows := filter (\<lambda>r. cell_eq (r col) v) (rows (h ! a))\<rparr>])"
  by (simp add: df_where_def bind_run fetch_run alloc_run)

lemma df_assign_run:
  "df_assign a col g h =
     (Inr (), h[a := \<lparr>columns = (if col \<in> set (columns (h ! a)) then columns (h ! a)
                                   else columns (h ! a) @ [col]),
                      rows = map (\<lambda>r. r(col := g r)) (rows (h ! a))\<rparr>])"
  by (simp add: df_assign_def bind_run fetch_run put_run)

lemma bind_ret: "bind (ret x) f h = f x h"
  by (simp add: bind_def ret_def)

lemma bind_raise: "bind (raise e) f h = (Inl e, h)"
  by (simp add: bind_def raise_def)

lemma bind_fetch: "bind (fetch a) f h = f (h ! a) h"
  by (simp add: bind_def fetch_def)

lemma bind_alloc: "bind (alloc fr) f h = f (length h) (h @ [fr])"
  by (simp add: bind_def alloc_def)

lemma bind_lift_Inr: "bind (lift (Inr x)) f h = f x h"
  by (simp add: bind_def lift_def ret_def)

lemma bind_lift_Inl: "bind (lift (Inl e)) f h = (Inl e, h)"
  by (simp add: bind_def lift_def raise_def)

lemma bind_df_copy: "bind (df_copy a) f h = f (length h) (h @ [h ! a])"
  by (simp add: bind_def df_copy_run)

lemma bind_df_where:
  "col \<in> set (columns (h ! a)) \<Longrightarrow>
   bind (df_where a col v) f h
     = f (length h) (h @ [(h ! a)\<lparr>rows := filter (\<lambda>r. cell_eq (r col) v) (rows (h ! a))\<rparr>])"
  by (simp add: bind_def df_where_run)

lemma bind_df_assign:
  "bind (df_assign a col g) f h =
     f () (h[a := \<lparr>columns = (if col \<in> set (columns (h ! a)) then columns (h ! a)
                                   else columns (h ! a) @ [col]),
                      rows = map (\<lambda>r. r(col := g r)) (rows (h ! a))\<rparr>])"
  by (simp add: bind_def df_assign_run)

lemmas steps = bind_ret bind_raise bind_fetch bind_alloc bind_lift_Inr bind_lift_Inl bind_df_copy
  bind_df_where bind_df_assign ret_run raise_run fetch_run lift_Inr_run lift_Inl_run nth_append

lemma filter_head: "filter P xs = y # ys \<Longrightarrow> P y"
proof -
  assume "filter P xs = y # ys"
  then have "y \<in> set (filter P xs)" by simp
  then show "P y" by simp
qed

section \<open>The store only grows\<close>

text \<open>
  Every operation of the queries keeps the frames that were there when the query
  started: it allocates, or assigns to a frame the query has made.
\<close>

lemma keepsI:
  assumes "\<And>h r h'. n \<le> length h \<Longrightarrow> m h = (r, h') \<Longrightarrow>
             n \<le> length h' \<and> take n h' = take n h \<and> (\<forall>x. r = Inr x \<longrightarrow> Q x)"
  shows "keeps n m Q"
  unfolding keeps_def using assms by blast

lemma keepsD:
  assumes "keeps n m Q" and "n \<le> length h" and "m h = (r, h')"
  shows "n \<le> length h'" and "take n h' = take n h" and "r = Inr x \<Longrightarrow> Q x"
  using assms unfolding keeps_def by blast+

lemma keeps_ret: "Q x \<Longrightarrow> keeps n (ret x) Q"
  by (rule keepsI) (auto simp: ret_def)

lemma keeps_raise: "keeps n (raise e) Q"
  by (rule keepsI) (auto simp: raise_def)

lemma keeps_fetch: "keeps n (fetch a) (\<lambda>f. True)"
  by (rule keepsI) (auto simp: fetch_def)

lemma keeps_alloc: "keeps n (alloc fr) (\<lambda>a. n \<le> a)"
  by (rule keepsI) (auto simp: alloc_def)

lemma keeps_put: "n \<le> a \<Longrightarrow> keeps n (put a fr) (\<lambda>u. True)"
  by (rule keepsI) (auto simp: put_def)

lemma keeps_bind:
  assumes "keeps n m Q" and "\<And>x. Q x \<Longrightarrow> keeps n (f x) Q'"
  shows "keeps n (bind m f) Q'"
proof (rule keepsI)
  fix h :: store and r h'
  assume n: "n \<le> length h" and run: "bind m f h = (r, h')"
  obtain r1 h1 where m: "m h = (r1, h1)" by (cases "m h")
  note 1 = keepsD [OF assms(1) n m]
  show "n \<le> length h' \<and> take n h' = take n h \<and> (\<forall>x. r = Inr x \<longrightarrow> Q' x)"
  proof (cases r1)
    case (Inl e)
    with m run have "r = Inl e" "h' = h1" by (simp_all add: bind_def)
    with 1 show ?thesis by simp
  next
    case (Inr x)
    with m run have fx: "f x h1 = (r, h')" by (simp add: bind_def)
    from Inr have "Q x" by (rule 1(3))
    then have k: "keeps n (f x) Q'" by (rule assms(2))
    note 2 = keepsD [OF k 1(1) fx]
    from 2 1(2) show ?thesis by simp
  qed
qed

lemma keeps_weaken:
  assumes "keeps n m Q" and "\<And>x. Q x \<Longrightarrow> Q' x"
  shows "keeps n m Q'"
proof (rule keepsI)
  fix h :: store and r h'
  assume n: "n \<le> length h" and run: "m h = (r, h')"
  note 1 = keepsD [OF assms(1) n run]
  from 1 assms(2) show "n \<le> length h' \<and> take n h' = take n h \<and> (\<forall>x. r = Inr x \<longrightarrow> Q' x)"
    by blast
qed

lemma keeps_lift: "(\<And>x. r = Inr x \<Longrightarrow> Q x) \<Longrightarrow> keeps n (lift r) Q"
  by (cases r) (simp_all add: lift_def keeps_ret keeps_raise)

lemma keeps_df_copy: "keeps n (df_copy a) (\<lambda>a'. n \<le> a')"
  unfolding df_copy_def by (rule keeps_bind [OF keeps_fetch keeps_alloc])

lemma keeps_df_where: "keeps n (df_where a col v) (\<lambda>a'. n \<le> a')"
  unfolding df_where_def
proof (rule keeps_bind [OF keeps_fetch])
  fix f :: frame
  show "keeps n (if col \<in> set (columns f)
                 then alloc (f\<lparr>rows := filter (\<lambda>r. cell_eq (r col) v) (rows f)\<rparr>)
                 else raise (KeyError col)) (\<lambda>a'. n \<le> a')"
    by (cases "col \<in> set (columns f)") (simp_all add: keeps_alloc keeps_raise)
qed

lemma keeps_df_assign: "n \<le> a \<Longrightarrow> keeps n (df_assign a col g) (\<lambda>u. True)"
  unfolding df_assign_def
  by (rule keeps_bind [OF keeps_fetch]) (rule keeps_put)

lemma keeps_df_to_numeric: "n \<le> a \<Longrightarrow> keeps n (df_to_numeric parse a c) (\<lambda>u. True)"
  unfolding df_to_numeric_def
proof (rule keeps_bind [OF keeps_fetch])
  fix f :: frame
  assume "n \<le> a"
  then show "keeps n (if c \<in> set (columns f)
                      then df_assign a c (\<lambda>row. to_numeric parse (row c))
                      else raise (KeyError c)) (\<lambda>u. True)"
    by (cases "c \<in> set (columns f)") (simp_all add: keeps_df_assign keeps_raise)
qed

lemma keeps_opt_where: "n \<le> a \<Longrightarrow> keeps n (opt_where a period col) (\<lambda>a'. n \<le> a')"
proof (cases period)
  case None
  assume "n \<le> a"
  with None show ?thesis by (simp add: opt_where_def keeps_ret)
next
  case (Some p)
  assume a: "n \<le> a"
  show ?thesis
  proof (cases "p = []")
    case True
    with Some a show ?thesis by (simp add: opt_where_def keeps_ret)
  next
    case False
    have "keeps n (bind (fetch a) (\<lambda>f. if col \<in> set (columns f) then df_where a col (Str p) else ret a))
            (\<lambda>a'. n \<le> a')"
    proof (rule keeps_bind [OF keeps_fetch])
      fix f :: frame
      show "keeps n (if col \<in> set (columns f) then df_where a col (Str p) else ret a) (\<lambda>a'. n \<le> a')"
        using a by (cases "col \<in> set (columns f)") (simp_all add: keeps_df_where keeps_ret)
    qed
    with Some False show ?thesis by (simp add: opt_where_def)
  qed
qed

lemma keeps_benefit_where:
  "n \<le> a \<Longrightarrow> keeps n (if b then df_where a col v else ret a) (\<lambda>a'. n \<le> a')"
  by (cases b) (simp_all add: keeps_df_where keeps_ret)

lemma keeps_apply_filters:
  "keeps n (apply_filters df gender occupation benefit benefit_period waiting_period) (\<lambda>a. n \<le> a)"
  unfolding apply_filters_def
  apply (rule keeps_bind [OF keeps_fetch])
  apply (rule keeps_bind [OF keeps_df_copy])
  apply (rule keeps_bind [OF keeps_df_where])
  apply (rule keeps_bind [OF keeps_df_where])
  apply (rule keeps_bind [OF keeps_benefit_where], assumption)
  apply (rule keeps_bind [OF keeps_opt_where], assumption)
  apply (rule keeps_opt_where, assumption)
  done

lemma keeps_display:
  "n \<le> a \<Longrightarrow> keeps n (if b then df_assign a col g else raise e) (\<lambda>u. True)"
  by (cases b) (simp_all add: keeps_df_assign keeps_raise)

lemma keeps_build_lookup:
  "keeps n (build_lookup df age gender occupation benefit) (\<lambda>f. True)"
  unfolding build_lookup_def
  apply (rule keeps_bind [OF keeps_fetch])
  apply (rule keeps_bind [OF keeps_df_copy])
  apply (rule keeps_bind [OF keeps_df_where])
  apply (rule keeps_bind [OF keeps_df_where])
  apply (rule keeps_bind [OF keeps_df_where])
  apply (rule keeps_bind [OF keeps_benefit_where], assumption)
  apply (rule keeps_bind [OF keeps_fetch])
  apply (rule keeps_bind [OF keeps_fetch])
  apply (rule keeps_bind [OF keeps_alloc])
  apply (rule keeps_bind [OF keeps_fetch])
  apply (rule keeps_bind [OF keeps_display], assumption)
  apply (rule keeps_bind [OF keeps_fetch])
  apply (rule keeps_lift)
  apply (rule TrueI)
  done

lemma keeps_if: "keeps n m1 Q \<Longrightarrow> keeps n m2 Q \<Longrightarrow> keeps n (if b then m1 else m2) Q"
  by simp

lemma keeps_coerce_and_report:
  "n \<le> a \<Longrightarrow> keeps n (coerce_and_report parse a cs) (\<lambda>missing. True)"
proof (induction cs)
  case Nil
  show ?case by (simp add: keeps_ret)
next
  case (Cons c cs)
  show ?case
    unfolding coerce_and_report.simps
    apply (rule keeps_bind [OF keeps_df_to_numeric [OF Cons.prems]])
    apply (rule keeps_bind [OF keeps_fetch])
    apply (rule keeps_bind [OF Cons.IH [OF Cons.prems]])
    apply (rule keeps_ret)
    apply (rule TrueI)
    done
qed

lemma keeps_coerce_all: "n \<le> a \<Longrightarrow> keeps n (coerce_all parse a cs) (\<lambda>u. True)"
proof (induction cs)
  case Nil
  show ?case by (simp add: keeps_ret)
next
  case (Cons c cs)
  show ?case
    unfolding coerce_all.simps
    apply (rule keeps_bind [OF keeps_df_to_numeric [OF Cons.prems]])
    apply (rule Cons.IH [OF Cons.prems])
    done
qed

lemma keeps_trend_tail:
  "n \<le> filtered \<Longrightarrow>
   keeps n (bind (coerce_and_report parse filtered melt_cols) (\<lambda>missing.
            bind (fetch filtered) (\<lambda>f.
            bind (lift (select_columns f (''Age'' # melt_cols))) (\<lambda>wide.
            bind (alloc (dropna [''Rate''] (melt wide melt_cols))) (\<lambda>long_df.
            bind (df_assign long_df ''Company'' (\<lambda>row. replace_in_cell (row ''Company''))) (\<lambda>u.
            bind (fetch long_df) (\<lambda>out.
              ret (out, missing)))))))) (\<lambda>x. True)"
  apply (rule keeps_bind [OF keeps_coerce_and_report], assumption)
  apply (rule keeps_bind [OF keeps_fetch])
  apply (rule keeps_bind [where Q = "\<lambda>w. True"])
   apply (rule keeps_lift)
   apply (rule TrueI)
  apply (rule keeps_bind [OF keeps_alloc])
  apply (rule keeps_bind [OF keeps_df_assign], assumption)
  apply (rule keeps_bind [OF keeps_fetch])
  apply (rule keeps_ret)
  apply (rule TrueI)
  done

lemma keeps_build_trend:
  "keeps n (build_trend parse df companies gender occupation benefit benefit_period waiting_period)
     (\<lambda>x. True)"
  unfolding build_trend_def
proof (rule keeps_bind [OF keeps_apply_filters])
  fix filtered :: nat
  assume a: "n \<le> filtered"
  show "keeps n (bind (fetch df) (\<lambda>df1.
          let melt_cols = filter (\<lambda>c. companies = [] \<or> c \<in> set companies) (get_company_columns df1)
          in if melt_cols = [] then ret (empty_frame, [])
             else
               bind (coerce_and_report parse filtered melt_cols) (\<lambda>missing.
               bind (fetch filtered) (\<lambda>f.
               bind (lift (select_columns f (''Age'' # melt_cols))) (\<lambda>wide.
               bind (alloc (dropna [''Rate''] (melt wide melt_cols))) (\<lambda>long_df.
               bind (df_assign long_df ''Company'' (\<lambda>row. replace_in_cell (row ''Company''))) (\<lambda>u.
               bind (fetch long_df) (\<lambda>out.
                 ret (out, missing))))))))) (\<lambda>x. True)"
  proof (rule keeps_bind [OF keeps_fetch])
    fix df1 :: frame
    show "keeps n
          (let melt_cols = filter (\<lambda>c. companies = [] \<or> c \<in> set companies) (get_company_columns df1)
          in if melt_cols = [] then ret (empty_frame, [])
             else
               bind (coerce_and_report parse filtered melt_cols) (\<lambda>missing.
               bind (fetch filtered) (\<lambda>f.
               bind (lift (select_columns f (''Age'' # melt_cols))) (\<lambda>wide.
               bind (alloc (dropna [''Rate''] (melt wide melt_cols))) (\<lambda>long_df.
               bind (df_assign long_df ''Company'' (\<lambda>row. replace_in_cell (row ''Company''))) (\<lambda>u.
               bind (fetch long_df) (\<lambda>out.
                 ret (out, missing)))))))) (\<lambda>x. True)"
      unfolding Let_def
      apply (rule keeps_if)
       apply (rule keeps_ret)
       apply (rule TrueI)
      apply (rule keeps_trend_tail [OF a])
      done
  qed
qed

lemma keeps_case_prod:
  "(\<And>a b. keeps n (f a b) Q) \<Longrightarrow> keeps n (case x of (a, b) \<Rightarrow> f a b) Q"
  by (cases x) simp

lemma keeps_compare_loop:
  "n \<le> filtered \<Longrightarrow> keeps n (compare_loop filtered base_series cs) (\<lambda>x. True)"
proof (induction cs)
  case Nil
  show ?case by (simp add: keeps_ret)
next
  case (Cons c cs)
  note IH = Cons.IH [OF Cons.prems]
  show ?case
    unfolding compare_loop.simps
    apply (rule keeps_bind [OF keeps_fetch])
    apply (rule keeps_bind [where Q = "\<lambda>w. True"])
     apply (rule keeps_lift)
     apply (rule TrueI)
    apply (rule keeps_bind [OF keeps_alloc])
    apply (rule keeps_bind [OF keeps_fetch])
    apply (rule keeps_if)
     apply (rule keeps_bind [OF IH])
     apply (rule keeps_case_prod)
     apply (rule keeps_ret)
     apply (rule TrueI)
    apply (rule keeps_bind [OF keeps_df_assign], assumption)
    apply (rule keeps_bind [OF keeps_df_assign], assumption)
    apply (rule keeps_bind [OF keeps_fetch])
    apply (rule keeps_bind [where Q = "\<lambda>w. True"])
     apply (rule keeps_lift)
     apply (rule TrueI)
    apply (rule keeps_bind [OF IH])
    apply (rule keeps_case_prod)
    apply (rule keeps_ret)
    apply (rule TrueI)
    done
qed

lemma keeps_baseline_block: "keeps n (baseline_block base_company base_series) (\<lambda>x. True)"
  unfolding baseline_block_def
  apply (rule keeps_if)
   apply (rule keeps_ret)
   apply (rule TrueI)
  apply (rule keeps_bind [OF keeps_alloc])
  apply (rule keeps_bind [OF keeps_df_assign], assumption)
  apply (rule keeps_bind [OF keeps_df_assign], assumption)
  apply (rule keeps_bind [OF keeps_fetch])
  apply (rule keeps_bind [where Q = "\<lambda>w. True"])
   apply (rule keeps_lift)
   apply (rule TrueI)
  apply (rule keeps_ret)
  apply (rule TrueI)
  done

lemma keeps_build_relative_trend:
  "keeps n (build_relative_trend parse df base_company compare_companies gender occupation benefit
              benefit_period waiting_period) (\<lambda>x. True)"
  unfolding build_relative_trend_def
  apply (rule keeps_if)
   apply (rule keeps_ret)
   apply (rule TrueI)
  apply (rule keeps_bind [OF keeps_apply_filters])
  apply (rule keeps_bind [OF keeps_fetch])
  apply (rule keeps_bind [OF keeps_coerce_all], assumption)
  apply (rule keeps_bind [OF keeps_fetch])
  apply (rule keeps_bind [where Q = "\<lambda>w. True"])
   apply (rule keeps_lift)
   apply (rule TrueI)
  apply (rule keeps_bind [OF keeps_baseline_block])
  apply (rule keeps_bind [OF keeps_compare_loop], assumption)
  apply (rule keeps_case_prod)
  apply (rule keeps_if)
   apply (rule keeps_ret)
   apply (rule TrueI)
  apply (rule keeps_bind [OF keeps_alloc])
  apply (rule keeps_bind [OF keeps_df_assign], assumption)
  apply (rule keeps_bind [OF keeps_fetch])
  apply (rule keeps_ret)
  apply (rule TrueI)
  done

lemma keeps_store:
  assumes "keeps (length h) m Q"
  shows "take (length h) (snd (m h)) = h"
proof -
  obtain r h' where run: "m h = (r, h')" by (cases "m h")
  from keepsD(2) [OF assms _ run] have "take (length h) h' = take (length h) h" by simp
  with run show ?thesis by simp
qed

section \<open>Two runs on the same table\<close>

text \<open>
  A query reads the table and the frames it has made, nothing else: two runs from stores
  that hold the same table return the same.
\<close>

lemma agreeI:
  assumes "\<And>h1 h2 r1 h1' r2 h2'.
             related d1 n1 d2 n2 h1 h2 \<Longrightarrow> m1 h1 = (r1, h1') \<Longrightarrow> m2 h2 = (r2, h2') \<Longrightarrow>
               related d1 n1 d2 n2 h1' h2'
               \<and> ((\<exists>e. r1 = Inl e \<and> r2 = Inl e) \<or> (\<exists>x1 x2. r1 = Inr x1 \<and> r2 = Inr x2 \<and> V x1 x2))"
  shows "agree d1 n1 d2 n2 m1 m2 V"
  unfolding agree_def using assms by blast

lemma agreeD:
  assumes "agree d1 n1 d2 n2 m1 m2 V"
    and "related d1 n1 d2 n2 h1 h2" and "m1 h1 = (r1, h1')" and "m2 h2 = (r2, h2')"
  shows "related d1 n1 d2 n2 h1' h2'"
    and "(\<exists>e. r1 = Inl e \<and> r2 = Inl e) \<or> (\<exists>x1 x2. r1 = Inr x1 \<and> r2 = Inr x2 \<and> V x1 x2)"
  using assms unfolding agree_def by blast+

lemma related_local:
  assumes "related d1 n1 d2 n2 h1 h2" and "local_pair n1 n2 a1 a2"
  shows "h1 ! a1 = h2 ! a2"
proof -
  from assms have n: "n1 \<le> length h1" "n2 \<le> length h2" and d: "drop n1 h1 = drop n2 h2"
    and a: "n1 \<le> a1" "n2 \<le> a2" "a1 - n1 = a2 - n2"
    by (simp_all add: related_def local_pair_def)
  have "h1 ! a1 = drop n1 h1 ! (a1 - n1)" using n(1) a(1) by simp
  also have "\<dots> = drop n2 h2 ! (a2 - n2)" using d a(3) by simp
  also have "\<dots> = h2 ! a2" using n(2) a(2) by simp
  finally show ?thesis .
qed

lemma related_alloc:
  assumes "related d1 n1 d2 n2 h1 h2"
  shows "related d1 n1 d2 n2 (h1 @ [f]) (h2 @ [f])" and "local_pair n1 n2 (length h1) (length h2)"
proof -
  from assms have n: "n1 \<le> length h1" "n2 \<le> length h2" and d: "drop n1 h1 = drop n2 h2"
    and i: "d1 < n1" "d2 < n2" "h1 ! d1 = h2 ! d2"
    by (simp_all add: related_def)
  from d have "length (drop n1 h1) = length (drop n2 h2)" by simp
  then have "length h1 - n1 = length h2 - n2" by simp
  with n show "local_pair n1 n2 (length h1) (length h2)" by (simp add: local_pair_def)
  from n d i show "related d1 n1 d2 n2 (h1 @ [f]) (h2 @ [f])"
    by (simp add: related_def nth_append)
qed

lemma related_put:
  assumes "related d1 n1 d2 n2 h1 h2" and "local_pair n1 n2 a1 a2"
  shows "related d1 n1 d2 n2 (h1[a1 := f]) (h2[a2 := f])"
proof -
  from assms have n: "n1 \<le> length h1" "n2 \<le> length h2" and d: "drop n1 h1 = drop n2 h2"
    and i: "d1 < n1" "d2 < n2" "h1 ! d1 = h2 ! d2"
    and a: "n1 \<le> a1" "n2 \<le> a2" "a1 - n1 = a2 - n2"
    by (simp_all add: related_def local_pair_def)
  have "drop n1 (h1[a1 := f]) = (drop n1 h1)[a1 - n1 := f]" using a(1) by (simp add: drop_update_swap)
  also have "\<dots> = (drop n2 h2)[a2 - n2 := f]" using d a(3) by simp
  also have "\<dots> = drop n2 (h2[a2 := f])" using a(2) by (simp add: drop_update_swap)
  finally have "drop n1 (h1[a1 := f]) = drop n2 (h2[a2 := f])" .
  moreover have "h1[a1 := f] ! d1 = h1 ! d1" "h2[a2 := f] ! d2 = h2 ! d2" using i a by simp_all
  ultimately show ?thesis using n i by (simp add: related_def)
qed

lemma agree_ret: "V x1 x2 \<Longrightarrow> agree d1 n1 d2 n2 (ret x1) (ret x2) V"
  by (rule agreeI) (auto simp: ret_def)

lemma agree_raise: "agree d1 n1 d2 n2 (raise e) (raise e) V"
  by (rule agreeI) (auto simp: raise_def)

lemma agree_lift: "agree d1 n1 d2 n2 (lift r) (lift r) (=)"
  by (cases r) (simp_all add: lift_def agree_ret agree_raise)

lemma agree_fetch_input: "agree d1 n1 d2 n2 (fetch d1) (fetch d2) (=)"
  by (rule agreeI) (auto simp: fetch_def related_def)

lemma agree_fetch_local:
  "local_pair n1 n2 a1 a2 \<Longrightarrow> agree d1 n1 d2 n2 (fetch a1) (fetch a2) (=)"
  by (rule agreeI) (auto simp: fetch_def dest: related_local)

lemma agree_alloc: "agree d1 n1 d2 n2 (alloc f) (alloc f) (local_pair n1 n2)"
  by (rule agreeI) (auto simp: alloc_def dest: related_alloc)

lemma agree_put:
  "local_pair n1 n2 a1 a2 \<Longrightarrow> agree d1 n1 d2 n2 (put a1 f) (put a2 f) (\<lambda>u v. True)"
  by (rule agreeI) (auto simp: put_def dest: related_put)

lemma agree_bind:
  assumes "agree d1 n1 d2 n2 m1 m2 V"
    and "\<And>x1 x2. V x1 x2 \<Longrightarrow> agree d1 n1 d2 n2 (f1 x1) (f2 x2) W"
  shows "agree d1 n1 d2 n2 (bind m1 f1) (bind m2 f2) W"
proof (rule agreeI)
  fix h1 h2 :: store and r1 h1' r2 h2'
  assume rel: "related d1 n1 d2 n2 h1 h2"
    and run1: "bind m1 f1 h1 = (r1, h1')" and run2: "bind m2 f2 h2 = (r2, h2')"
  obtain s1 k1 where m1: "m1 h1 = (s1, k1)" by (cases "m1 h1")
  obtain s2 k2 where m2: "m2 h2 = (s2, k2)" by (cases "m2 h2")
  note 1 = agreeD [OF assms(1) rel m1 m2]
  from 1(2) show "related d1 n1 d2 n2 h1' h2'
      \<and> ((\<exists>e. r1 = Inl e \<and> r2 = Inl e) \<or> (\<exists>x1 x2. r1 = Inr x1 \<and> r2 = Inr x2 \<and> W x1 x2))"
  proof
    assume "\<exists>e. s1 = Inl e \<and> s2 = Inl e"
    then obtain e where "s1 = Inl e" "s2 = Inl e" by blast
    with m1 m2 run1 run2 have "r1 = Inl e" "r2 = Inl e" "h1' = k1" "h2' = k2"
      by (simp_all add: bind_def)
    with 1(1) show ?thesis by simp
  next
    assume "\<exists>x1 x2. s1 = Inr x1 \<and> s2 = Inr x2 \<and> V x1 x2"
    then obtain x1 x2 where s: "s1 = Inr x1" "s2 = Inr x2" and v: "V x1 x2" by blast
    from s m1 m2 run1 run2 have f: "f1 x1 k1 = (r1, h1')" "f2 x2 k2 = (r2, h2')"
      by (simp_all add: bind_def)
    from agreeD [OF assms(2) [OF v] 1(1) f] show ?thesis by simp
  qed
qed

lemma agree_bind_eq:
  assumes "agree d1 n1 d2 n2 m1 m2 (=)"
    and "\<And>x. agree d1 n1 d2 n2 (f1 x) (f2 x) W"
  shows "agree d1 n1 d2 n2 (bind m1 f1) (bind m2 f2) W"
  using assms(1)
proof (rule agree_bind)
  fix x1 x2 :: 'a
  assume "x1 = x2"
  then show "agree d1 n1 d2 n2 (f1 x1) (f2 x2) W" using assms(2) [of x2] by simp
qed

lemma agree_if:
  "agree d1 n1 d2 n2 m1 m2 V \<Longrightarrow> agree d1 n1 d2 n2 k1 k2 V \<Longrightarrow>
   agree d1 n1 d2 n2 (if b then m1 else k1) (if b then m2 else k2) V"
  by simp

lemma agree_case_prod:
  "(\<And>a b. agree d1 n1 d2 n2 (f1 a b) (f2 a b) V) \<Longrightarrow>
   agree d1 n1 d2 n2 (case x of (a, b) \<Rightarrow> f1 a b) (case x of (a, b) \<Rightarrow> f2 a b) V"
  by (cases x) simp

lemma agree_weaken:
  assumes "agree d1 n1 d2 n2 m1 m2 V" and "\<And>x y. V x y \<Longrightarrow> W x y"
  shows "agree d1 n1 d2 n2 m1 m2 W"
proof (rule agreeI)
  fix h1 h2 :: store and r1 h1' r2 h2'
  assume rel: "related d1 n1 d2 n2 h1 h2" and run: "m1 h1 = (r1, h1')" "m2 h2 = (r2, h2')"
  note 1 = agreeD [OF assms(1) rel run]
  from 1 assms(2) show "related d1 n1 d2 n2 h1' h2'
      \<and> ((\<exists>e. r1 = Inl e \<and> r2 = Inl e) \<or> (\<exists>x1 x2. r1 = Inr x1 \<and> r2 = Inr x2 \<and> W x1 x2))"
    by blast
qed

lemma agree_df_copy_input: "agree d1 n1 d2 n2 (df_copy d1) (df_copy d2) (local_pair n1 n2)"
  unfolding df_copy_def
  by (rule agree_bind_eq [OF agree_fetch_input]) (rule agree_alloc)

lemma agree_df_where:
  "local_pair n1 n2 a1 a2 \<Longrightarrow>
   agree d1 n1 d2 n2 (df_where a1 col v) (df_where a2 col v) (local_pair n1 n2)"
  unfolding df_where_def
  apply (rule agree_bind_eq [OF agree_fetch_local], assumption)
  apply (rule agree_if)
   apply (rule agree_alloc)
  apply (rule agree_raise)
  done

lemma agree_df_assign:
  "local_pair n1 n2 a1 a2 \<Longrightarrow>
   agree d1 n1 d2 n2 (df_assign a1 col g) (df_assign a2 col g) (\<lambda>u v. True)"
  unfolding df_assign_def
  apply (rule agree_bind_eq [OF agree_fetch_local], assumption)
  apply (rule agree_put, assumption)
  done

lemma agree_df_to_numeric:
  "local_pair n1 n2 a1 a2 \<Longrightarrow>
   agree d1 n1 d2 n2 (df_to_numeric parse a1 c) (df_to_numeric parse a2 c) (\<lambda>u v. True)"
  unfolding df_to_numeric_def
  apply (rule agree_bind_eq [OF agree_fetch_local], assumption)
  apply (rule agree_if)
   apply (rule agree_df_assign, assumption)
  apply (rule agree_raise)
  done

lemma agree_opt_where:
  assumes "local_pair n1 n2 a1 a2"
  shows "agree d1 n1 d2 n2 (opt_where a1 period col) (opt_where a2 period col) (local_pair n1 n2)"
proof (cases period)
  case None
  with assms show ?thesis by (simp add: opt_where_def agree_ret)
next
  case (Some p)
  show ?thesis
  proof (cases "p = []")
    case True
    with Some assms show ?thesis by (simp add: opt_where_def agree_ret)
  next
    case False
    have "agree d1 n1 d2 n2
            (bind (fetch a1) (\<lambda>f. if col \<in> set (columns f) then df_where a1 col (Str p) else ret a1))
            (bind (fetch a2) (\<lambda>f. if col \<in> set (columns f) then df_where a2 col (Str p) else ret a2))
            (local_pair n1 n2)"
      apply (rule agree_bind_eq [OF agree_fetch_local [OF assms]])
      apply (rule agree_if)
       apply (rule agree_df_where [OF assms])
      apply (rule agree_ret)
      apply (rule assms)
      done
    with Some False show ?thesis by (simp add: opt_where_def)
  qed
qed

lemma agree_benefit_where:
  "local_pair n1 n2 a1 a2 \<Longrightarrow>
   agree d1 n1 d2 n2 (if b then df_where a1 col v else ret a1) (if b then df_where a2 col v else ret a2)
     (local_pair n1 n2)"
  by (cases b) (simp_all add: agree_df_where agree_ret)

lemma agree_apply_filters:
  "agree d1 n1 d2 n2
     (apply_filters d1 gender occupation benefit benefit_period waiting_period)
     (apply_filters d2 gender occupation benefit benefit_period waiting_period)
     (local_pair n1 n2)"
  unfolding apply_filters_def
  apply (rule agree_bind_eq [OF agree_fetch_input])
  apply (rule agree_bind [OF agree_df_copy_input])
  apply (rule agree_bind [OF agree_df_where], assumption)
  apply (rule agree_bind [OF agree_df_where], assumption)
  apply (rule agree_bind [OF agree_benefit_where], assumption)
  apply (rule agree_bind [OF agree_opt_where], assumption)
  apply (rule agree_opt_where, assumption)
  done

lemma agree_display:
  "local_pair n1 n2 a1 a2 \<Longrightarrow>
   agree d1 n1 d2 n2 (if b then df_assign a1 col g else raise e) (if b then df_assign a2 col g else raise e)
     (\<lambda>u v. True)"
  by (cases b) (simp_all add: agree_df_assign agree_raise)

lemma agree_build_lookup:
  "agree d1 n1 d2 n2
     (build_lookup d1 age gender occupation benefit)
     (build_lookup d2 age gender occupation benefit) (=)"
  unfolding build_lookup_def
  apply (rule agree_bind_eq [OF agree_fetch_input])
  apply (rule agree_bind [OF agree_df_copy_input])
  apply (rule agree_bind [OF agree_df_where], assumption)
  apply (rule agree_bind [OF agree_df_where], assumption)
  apply (rule agree_bind [OF agree_df_where], assumption)
  apply (rule agree_bind [OF agree_benefit_where], assumption)
  apply (rule agree_bind_eq [OF agree_fetch_input])
  apply (rule agree_bind_eq [OF agree_fetch_local], assumption)
  apply (rule agree_bind [OF agree_alloc])
  apply (rule agree_bind_eq [OF agree_fetch_local], assumption)
  apply (rule agree_bind [OF agree_display], assumption)
  apply (rule agree_bind_eq [OF agree_fetch_local], assumption)
  apply (rule agree_lift)
  done

lemma agree_coerce_and_report:
  "local_pair n1 n2 a1 a2 \<Longrightarrow>
   agree d1 n1 d2 n2 (coerce_and_report parse a1 cs) (coerce_and_report parse a2 cs) (=)"
proof (induction cs)
  case Nil
  show ?case by (simp add: agree_ret)
next
  case (Cons c cs)
  note IH = Cons.IH [OF Cons.prems]
  show ?case
    unfolding coerce_and_report.simps
    apply (rule agree_bind [OF agree_df_to_numeric [OF Cons.prems]])
    apply (rule agree_bind_eq [OF agree_fetch_local [OF Cons.prems]])
    apply (rule agree_bind_eq [OF IH])
    apply (rule agree_ret)
    apply (rule refl)
    done
qed

lemma agree_coerce_all:
  "local_pair n1 n2 a1 a2 \<Longrightarrow>
   agree d1 n1 d2 n2 (coerce_all parse a1 cs) (coerce_all parse a2 cs) (\<lambda>u v. True)"
proof (induction cs)
  case Nil
  show ?case by (simp add: agree_ret)
next
  case (Cons c cs)
  show ?case
    unfolding coerce_all.simps
    apply (rule agree_bind [OF agree_df_to_numeric [OF Cons.prems]])
    apply (rule Cons.IH [OF Cons.prems])
    done
qed

lemma agree_build_trend:
  "agree d1 n1 d2 n2
     (build_trend parse d1 companies gender occupation benefit benefit_period waiting_period)
     (build_trend parse d2 companies gender occupation benefit benefit_period waiting_period) (=)"
  unfolding build_trend_def Let_def
  apply (rule agree_bind [OF agree_apply_filters])
  apply (rule agree_bind_eq [OF agree_fetch_input])
  apply (rule agree_if)
   apply (rule agree_ret)
   apply (rule refl)
  apply (rule agree_bind_eq [OF agree_coerce_and_report], assumption)
  apply (rule agree_bind_eq [OF agree_fetch_local], assumption)
  apply (rule agree_bind_eq [OF agree_lift])
  apply (rule agree_bind [OF agree_alloc])
  apply (rule agree_bind [OF agree_df_assign], assumption)
  apply (rule agree_bind_eq [OF agree_fetch_local], assumption)
  apply (rule agree_ret)
  apply (rule refl)
  done

lemma agree_compare_loop:
  "local_pair n1 n2 a1 a2 \<Longrightarrow>
   agree d1 n1 d2 n2 (compare_loop a1 base_series cs) (compare_loop a2 base_series cs) (=)"
proof (induction cs)
  case Nil
  show ?case by (simp add: agree_ret)
next
  case (Cons c cs)
  note IH = Cons.IH [OF Cons.prems]
  show ?case
    unfolding compare_loop.simps
    apply (rule agree_bind_eq [OF agree_fetch_local [OF Cons.prems]])
    apply (rule agree_bind_eq [OF agree_lift])
    apply (rule agree_bind [OF agree_alloc])
    apply (rule agree_bind_eq [OF agree_fetch_local], assumption)
    apply (rule agree_if)
     apply (rule agree_bind_eq [OF IH])
     apply (rule agree_case_prod)
     apply (rule agree_ret)
     apply (rule refl)
    apply (rule agree_bind [OF agree_df_assign], assumption)
    apply (rule agree_bind [OF agree_df_assign], assumption)
    apply (rule agree_bind_eq [OF agree_fetch_local], assumption)
    apply (rule agree_bind_eq [OF agree_lift])
    apply (rule agree_bind_eq [OF IH])
    apply (rule agree_case_prod)
    apply (rule agree_ret)
    apply (rule refl)
    done
qed

lemma agree_baseline_block:
  "agree d1 n1 d2 n2 (baseline_block base_company base_series)
     (baseline_block base_company base_series) (=)"
  unfolding baseline_block_def
  apply (rule agree_if)
   apply (rule agree_ret)
   apply (rule refl)
  apply (rule agree_bind [OF agree_alloc])
  apply (rule agree_bind [OF agree_df_assign], assumption)
  apply (rule agree_bind [OF agree_df_assign], assumption)
  apply (rule agree_bind_eq [OF agree_fetch_local], assumption)
  apply (rule agree_bind_eq [OF agree_lift])
  apply (rule agree_ret)
  apply (rule refl)
  done

lemma agree_build_relative_trend:
  "agree d1 n1 d2 n2
     (build_relative_trend parse d1 base_company compare_companies gender occupation benefit
        benefit_period waiting_period)
     (build_relative_trend parse d2 base_company compare_companies gender occupation benefit
        benefit_period waiting_period) (=)"
  unfolding build_relative_trend_def
  apply (rule agree_if)
   apply (rule agree_ret)
   apply (rule refl)
  apply (rule agree_bind [OF agree_apply_filters])
  apply (rule agree_bind_eq [OF agree_fetch_local], assumption)
  apply (rule agree_bind [OF agree_coerce_all], assumption)
  apply (rule agree_bind_eq [OF agree_fetch_local], assumption)
  apply (rule agree_bind_eq [OF agree_lift])
  apply (rule agree_bind_eq [OF agree_baseline_block])
  apply (rule agree_bind_eq [OF agree_compare_loop], assumption)
  apply (rule agree_case_prod)
  apply (rule agree_if)
   apply (rule agree_ret)
   apply (rule refl)
  apply (rule agree_bind [OF agree_alloc])
  apply (rule agree_bind [OF agree_df_assign], assumption)
  apply (rule agree_bind_eq [OF agree_fetch_local], assumption)
  apply (rule agree_ret)
  apply (rule refl)
  done

lemma agree_results:
  assumes "agree d1 (length h1) d2 (length h2) m1 m2 (=)"
    and "d1 < length h1" and "d2 < length h2" and "h1 ! d1 = h2 ! d2"
  shows "fst (m1 h1) = fst (m2 h2)"
proof -
  obtain r1 k1 where 1: "m1 h1 = (r1, k1)" by (cases "m1 h1")
  obtain r2 k2 where 2: "m2 h2 = (r2, k2)" by (cases "m2 h2")
  have "related d1 (length h1) d2 (length h2) h1 h2" using assms(2-4) by (simp add: related_def)
  from agreeD(2) [OF assms(1) this 1 2] have "r1 = r2" by auto
  with 1 2 show ?thesis by simp
qed

section \<open>The result of the point lookup\<close>

text \<open>
  On a table with the four filter columns and a company column the lookup raises
  nothing, and its result is computed from the rows of the table.
\<close>

lemma build_lookup_result:
  assumes df: "df < length h"
    and cols: "''Age'' \<in> set (columns (h ! df))" "''Gender'' \<in> set (columns (h ! df))"
      "''Occupation'' \<in> set (columns (h ! df))" "''BenefitType'' \<in> set (columns (h ! df))"
    and comps: "get_company_columns (h ! df) \<noteq> []"
  shows "fst (build_lookup df age gender occupation benefit h)
           = Inr \<lparr>columns = [''Company'', ''Display''],
                  rows = map (\<lambda>c. (\<lambda>x. Missing)
                               (''Company'' := Str (display_name c),
                                ''Display'' :=
                                  (case filter (\<lambda>x. x \<noteq> Missing)
                                          (map (\<lambda>r. r c)
                                             (filter (\<lambda>r. cell_eq (r ''Age'') age
                                                        \<and> cell_eq (r ''Gender'') (Str gender)
                                                        \<and> cell_eq (r ''Occupation'') (Str occupation)
                                                        \<and> cell_eq (r ''BenefitType'') (Str benefit))
                                                (rows (h ! df)))) of
                                     [] \<Rightarrow> Str ''no available''
                                   | x # xs \<Rightarrow> x)))
                             (get_company_columns (h ! df))\<rparr>"
proof -
  have ne: "columns (h ! df) \<noteq> []" using cols(1) by auto
  show ?thesis
    apply (simp add: build_lookup_def steps df cols records_frame_def comps select_columns_def)
    apply (simp add: fun_eq_iff first_rate_def frame_empty_def ne display_of_def
        split: list.splits)
    apply (blast dest: filter_head)
    done
qed

section \<open>The result of the relative trend\<close>

text \<open>
  The filters leave a frame with the rows that pass them; the coercion leaves it with
  numeric company columns; the baseline series has the ages where the baseline has a
  value; the loop over the compare companies raises nothing.
\<close>

lemma copy_step:
  "df < length h \<Longrightarrow> \<exists>a h'. df_copy df h = (Inr a, h') \<and> local_frame h h' a (h ! df)"
  by (simp add: df_copy_run local_frame_def)

lemma where_step:
  assumes "local_frame h h1 a F" and "col \<in> set (columns F)"
  shows "\<exists>a' h2. df_where a col v h1 = (Inr a', h2)
           \<and> local_frame h h2 a' (F\<lparr>rows := filter (\<lambda>r. cell_eq (r col) v) (rows F)\<rparr>)"
  using assms by (simp add: df_where_run local_frame_def)

lemma opt_where_step:
  assumes "local_frame h h1 a F"
  shows "\<exists>a' h2. opt_where a period col h1 = (Inr a', h2)
           \<and> local_frame h h2 a'
                (case period of
                   None \<Rightarrow> F
                 | Some p \<Rightarrow>
                     if p \<noteq> [] \<and> col \<in> set (columns F)
                     then F\<lparr>rows := filter (\<lambda>r. cell_eq (r col) (Str p)) (rows F)\<rparr>
                     else F)"
proof (cases period)
  case None
  with assms show ?thesis by (simp add: opt_where_def ret_run)
next
  case (Some p)
  show ?thesis
  proof (cases "p \<noteq> [] \<and> col \<in> set (columns F)")
    case True
    from where_step [OF assms, of col "Str p"] True
    obtain a' h2 where "df_where a col (Str p) h1 = (Inr a', h2)"
      and "local_frame h h2 a' (F\<lparr>rows := filter (\<lambda>r. cell_eq (r col) (Str p)) (rows F)\<rparr>)"
      by blast
    with Some True assms show ?thesis
      by (simp add: opt_where_def bind_fetch local_frame_def)
  next
    case False
    with Some assms show ?thesis
      by (auto simp: opt_where_def bind_fetch ret_run local_frame_def)
  qed
qed

lemma apply_filters_success:
  assumes df: "df < length h"
    and cols: "''Gender'' \<in> set (columns (h ! df))" "''Occupation'' \<in> set (columns (h ! df))"
  shows "\<exists>a h'. apply_filters df gender occupation benefit benefit_period waiting_period h = (Inr a, h')
           \<and> local_frame h h' a
                ((h ! df)\<lparr>rows := filter (passes_filters (columns (h ! df)) gender occupation benefit
                                            benefit_period waiting_period)
                                        (rows (h ! df))\<rparr>)"
proof -
  let ?f = "h ! df"
  from copy_step [OF df] obtain a0 h0 where s0: "df_copy df h = (Inr a0, h0)"
    and l0: "local_frame h h0 a0 ?f" by blast
  let ?f1 = "?f\<lparr>rows := filter (\<lambda>r. cell_eq (r ''Gender'') (Str gender)) (rows ?f)\<rparr>"
  from where_step [OF l0 cols(1)] obtain a1 h1 where s1: "df_where a0 ''Gender'' (Str gender) h0 = (Inr a1, h1)"
    and l1: "local_frame h h1 a1 ?f1" by blast
  let ?f2 = "?f1\<lparr>rows := filter (\<lambda>r. cell_eq (r ''Occupation'') (Str occupation)) (rows ?f1)\<rparr>"
  have "''Occupation'' \<in> set (columns ?f1)" using cols(2) by simp
  from where_step [OF l1 this] obtain a2 h2
    where s2: "df_where a1 ''Occupation'' (Str occupation) h1 = (Inr a2, h2)"
    and l2: "local_frame h h2 a2 ?f2" by blast
  let ?f3 = "if ''BenefitType'' \<in> set (columns ?f)
             then ?f2\<lparr>rows := filter (\<lambda>r. cell_eq (r ''BenefitType'') (Str benefit)) (rows ?f2)\<rparr>
             else ?f2"
  have "\<exists>a3 h3. (if ''BenefitType'' \<in> set (columns ?f)
                  then df_where a2 ''BenefitType'' (Str benefit) else ret a2) h2 = (Inr a3, h3)
                 \<and> local_frame h h3 a3 ?f3"
  proof (cases "''BenefitType'' \<in> set (columns ?f)")
    case True
    then have "''BenefitType'' \<in> set (columns ?f2)" by simp
    from where_step [OF l2 this] True show ?thesis by simp
  next
    case False
    with l2 show ?thesis by (simp add: ret_run)
  qed
  then obtain a3 h3 where s3: "(if ''BenefitType'' \<in> set (columns ?f)
                  then df_where a2 ''BenefitType'' (Str benefit) else ret a2) h2 = (Inr a3, h3)"
    and l3: "local_frame h h3 a3 ?f3" by blast
  let ?f4 = "case benefit_period of
               None \<Rightarrow> ?f3
             | Some p \<Rightarrow>
                 if p \<noteq> [] \<and> ''BenefitPeriod'' \<in> set (columns ?f3)
                 then ?f3\<lparr>rows := filter (\<lambda>r. cell_eq (r ''BenefitPeriod'') (Str p)) (rows ?f3)\<rparr>
                 else ?f3"
  from opt_where_step [OF l3] obtain a4 h4
    where s4: "opt_where a3 benefit_period ''BenefitPeriod'' h3 = (Inr a4, h4)"
    and l4: "local_frame h h4 a4 ?f4" by blast
  let ?f5 = "case waiting_period of
               None \<Rightarrow> ?f4
             | Some p \<Rightarrow>
                 if p \<noteq> [] \<and> ''WaitingPeriod'' \<in> set (columns ?f4)
                 then ?f4\<lparr>rows := filter (\<lambda>r. cell_eq (r ''WaitingPeriod'') (Str p)) (rows ?f4)\<rparr>
                 else ?f4"
  from opt_where_step [OF l4] obtain a5 h5
    where s5: "opt_where a4 waiting_period ''WaitingPeriod'' h4 = (Inr a5, h5)"
    and l5: "local_frame h h5 a5 ?f5" by blast
  have run: "apply_filters df gender occupation benefit benefit_period waiting_period h = (Inr a5, h5)"
  proof -
    have b0: "\<And>k. bind (df_copy df) k h = k a0 h0" using s0 by (simp add: bind_def)
    have b1: "\<And>k. bind (df_where a0 ''Gender'' (Str gender)) k h0 = k a1 h1"
      using s1 by (simp add: bind_def)
    have b2: "\<And>k. bind (df_where a1 ''Occupation'' (Str occupation)) k h1 = k a2 h2"
      using s2 by (simp add: bind_def)
    have b3: "\<And>k. bind (if ''BenefitType'' \<in> set (columns ?f)
                  then df_where a2 ''BenefitType'' (Str benefit) else ret a2) k h2 = k a3 h3"
      using s3 by (simp add: bind_def)
    have b4: "\<And>k. bind (opt_where a3 benefit_period ''BenefitPeriod'') k h3 = k a4 h4"
      using s4 by (simp add: bind_def)
    show ?thesis
      unfolding apply_filters_def
      by (simp only: bind_fetch b0 b1 b2 b3 b4 s5)
  qed
  have c3: "columns ?f3 = columns ?f" by simp
  have c4: "columns ?f4 = columns ?f" by (simp split: option.splits)
  have "?f5 = ?f\<lparr>rows := filter (passes_filters (columns ?f) gender occupation benefit
                                   benefit_period waiting_period) (rows ?f)\<rparr>"
    unfolding passes_filters_def
    by (cases benefit_period; cases waiting_period)
       (auto simp: c3 intro!: filter_cong)
  with run l5 show ?thesis by simp
qed

lemma to_numeric_twice: "to_numeric parse (to_numeric parse x) = to_numeric parse x"
  by (cases x) (simp_all add: to_numeric_def split: option.splits)

lemma frame_rows_update: "\<lparr>columns = columns F, rows = X\<rparr> = F\<lparr>rows := X\<rparr>"
  by (cases F) simp

lemma coerce_all_run:
  assumes "a < length h1" and "set cs \<subseteq> set (columns (h1 ! a))"
  shows "coerce_all parse a cs h1 = (Inr (), h1[a := coerced parse cs (h1 ! a)])"
  using assms
proof (induction cs arbitrary: h1)
  case Nil
  have "coerced parse [] (h1 ! a) = h1 ! a" by (simp add: coerced_def)
  then show ?case by (simp add: ret_run)
next
  case (Cons c cs)
  let ?F = "h1 ! a"
  let ?F1 = "?F\<lparr>rows := map (\<lambda>r. r(c := to_numeric parse (r c))) (rows ?F)\<rparr>"
  let ?h2 = "h1[a := ?F1]"
  from Cons.prems have c: "c \<in> set (columns ?F)" by simp
  have "df_to_numeric parse a c h1 = (Inr (), ?h2)"
    using c by (simp add: df_to_numeric_def bind_fetch df_assign_run frame_rows_update)
  then have step: "\<And>k. bind (df_to_numeric parse a c) k h1 = k () ?h2"
    by (simp add: bind_def)
  have "a < length ?h2" using Cons.prems(1) by simp
  moreover have "set cs \<subseteq> set (columns (?h2 ! a))" using Cons.prems by simp
  ultimately have "coerce_all parse a cs ?h2 = (Inr (), ?h2[a := coerced parse cs (?h2 ! a)])"
    by (rule Cons.IH)
  moreover have "coerced parse cs (?h2 ! a) = coerced parse (c # cs) ?F"
    using Cons.prems(1) by (auto simp: coerced_def fun_eq_iff to_numeric_twice)
  ultimately show ?case by (simp add: step)
qed

lemma insort_key_le_set: "set (insort_key_le x ks) = insert x (set ks)"
  by (induction ks) auto

lemma sort_keys_set: "set (sort_keys ks) = set ks"
  unfolding sort_keys_def by (induction ks) (simp_all add: insort_key_le_set)

lemma insort_key_le_distinct: "distinct ks \<Longrightarrow> x \<notin> set ks \<Longrightarrow> distinct (insort_key_le x ks)"
  by (induction ks) (auto simp: insort_key_le_set)

lemma sort_keys_distinct: "distinct ks \<Longrightarrow> distinct (sort_keys ks)"
  unfolding sort_keys_def
  by (induction ks) (simp_all add: insort_key_le_distinct sort_keys_set [unfolded sort_keys_def])

lemma group_mean_keys:
  assumes "''Age'' \<in> set (columns F)" and "c \<in> set (columns F)"
  shows "\<exists>series. group_mean F c = Inr series
           \<and> distinct (map fst series)
           \<and> set (map fst series)
               = {r ''Age'' | r. r \<in> set (rows F) \<and> r ''Age'' \<noteq> Missing \<and> r c \<noteq> Missing}"
proof -
  let ?kept = "filter (\<lambda>r. r ''Age'' \<noteq> Missing \<and> r c \<noteq> Missing) (rows F)"
  let ?keys = "sort_keys (remdups (map (\<lambda>r. r ''Age'') ?kept))"
  let ?series = "map (\<lambda>k. (k, mean (map (\<lambda>r. r c) (filter (\<lambda>r. r ''Age'' = k) ?kept)))) ?keys"
  have run: "group_mean F c = Inr ?series"
    using assms by (simp add: group_mean_def Let_def)
  have keys: "map fst ?series = ?keys" by (simp add: o_def)
  have "distinct ?keys" by (simp add: sort_keys_distinct)
  moreover have "set ?keys = {r ''Age'' | r. r \<in> set (rows F) \<and> r ''Age'' \<noteq> Missing \<and> r c \<noteq> Missing}"
    by (auto simp: sort_keys_set)
  ultimately show ?thesis using run keys by (metis (no_types, lifting))
qed

lemma group_mean_error:
  "group_mean F c = Inl e \<Longrightarrow> ''Age'' \<notin> set (columns F) \<or> c \<notin> set (columns F)"
  by (auto simp: group_mean_def Let_def split: if_splits)

lemma grown_refl: "grown h h"
  by (simp add: grown_def)

lemma grown_trans: "grown h h1 \<Longrightarrow> grown h1 h2 \<Longrightarrow> grown h h2"
  by (auto simp: grown_def)

lemma grown_append: "grown h (h @ ext)"
  by (simp add: grown_def nth_append)

lemma grown_update: "length h \<le> a \<Longrightarrow> grown h h' \<Longrightarrow> grown h (h'[a := F])"
  by (auto simp: grown_def)

lemma baseline_block_run:
  assumes "base_company \<noteq> ''Age''"
  shows "\<exists>h'. baseline_block base_company base_series h
                 = (Inr (if base_series = [] then []
                         else [\<lparr>columns = [''Age'', ''Company'', ''Ratio''],
                                rows = map (\<lambda>k. (\<lambda>x. Missing)
                                              (''Age'' := k, ''Company'' := Str base_company,
                                               ''Ratio'' := Num 100))
                                           (map fst base_series)\<rparr>]), h')
              \<and> grown h h'"
proof (cases "base_series = []")
  case True
  then show ?thesis by (auto simp: baseline_block_def ret_run grown_refl)
next
  case False
  let ?h' = "(h @ [series_frame base_company base_series])
               [length h := \<lparr>columns = [''Age'', base_company, ''Company''],
                             rows = map (\<lambda>r. r(''Company'' := Str base_company))
                                      (rows (series_frame base_company base_series))\<rparr>]"
  have g: "grown h (h @ [x, y])" for x y :: frame by (rule grown_append)
  show ?thesis
    using False assms
    apply (simp add: baseline_block_def steps series_frame_def select_columns_def)
    apply (auto simp: grown_def nth_append fun_eq_iff split_def)
    done
qed

lemma joined_frame_no_base: "rows (joined_frame [] cmp_series) = []"
  by (simp add: joined_frame_def dropna_def)

lemma columns_joined_frame: "columns (joined_frame bs s) = [''Age'', ''base'', ''comp'']"
  by (simp add: joined_frame_def dropna_def)

lemma compare_loop_success:
  assumes "a < length h" and "''Age'' \<in> set (columns (h ! a))"
    and "set cs \<subseteq> set (columns (h ! a))"
  shows "\<exists>blocks missing h'. compare_loop a bs cs h = (Inr (blocks, missing), h')
            \<and> grown h h' \<and> (bs = [] \<longrightarrow> blocks = [] \<and> missing = cs)"
  using assms
proof (induction cs arbitrary: h)
  case Nil
  show ?case by (simp add: ret_run grown_refl)
next
  case (Cons c cs)
  from Cons.prems have c: "c \<in> set (columns (h ! a))" by simp
  from group_mean_keys [OF Cons.prems(2) c] obtain series
    where gm: "group_mean (h ! a) c = Inr series" by blast
  let ?J = "joined_frame bs series"
  let ?h1 = "h @ [?J]"
  show ?case
  proof (cases "rows ?J = []")
    case True
    have "a < length ?h1" using Cons.prems(1) by simp
    moreover have same: "?h1 ! a = h ! a" using Cons.prems(1) by (simp add: nth_append)
    ultimately obtain blocks missing h'
      where run: "compare_loop a bs cs ?h1 = (Inr (blocks, missing), h')"
        and g: "grown ?h1 h'" and e: "bs = [] \<longrightarrow> blocks = [] \<and> missing = cs"
      using Cons.IH [of ?h1] Cons.prems by auto
    have b: "\<And>k. bind (compare_loop a bs cs) k ?h1 = k (blocks, missing) h'"
      using run by (simp add: bind_def)
    have "compare_loop a bs (c # cs) h = (Inr (blocks, c # missing), h')"
      using True run
      apply (simp add: steps gm)
      apply (simp add: bind_def ret_def)
      done
    moreover have "grown h h'" using grown_append g by (rule grown_trans)
    ultimately show ?thesis using e by simp
  next
    case False
    then have bs: "bs \<noteq> []" using joined_frame_no_base by auto
    let ?J1 = "\<lparr>columns = [''Age'', ''base'', ''comp'', ''Company''],
               rows = map (\<lambda>r. r(''Company'' := Str c)) (rows ?J)\<rparr>"
    let ?J2 = "\<lparr>columns = [''Age'', ''base'', ''comp'', ''Company'', ''Ratio''],
               rows = map (\<lambda>r. r(''Ratio'' := ratio (r ''comp'') (r ''base''))) (rows ?J1)\<rparr>"
    let ?h2 = "?h1[length h := ?J2]"
    have "a < length ?h2" using Cons.prems(1) by simp
    moreover have same: "?h2 ! a = h ! a" using Cons.prems(1) by (simp add: nth_append)
    ultimately obtain blocks missing h'
      where run: "compare_loop a bs cs ?h2 = (Inr (blocks, missing), h')"
        and g: "grown ?h2 h'"
      using Cons.IH [of ?h2] Cons.prems by auto
    have b: "\<And>k. bind (compare_loop a bs cs) k ?h2 = k (blocks, missing) h'"
      using run by (simp add: bind_def)
    have "\<exists>block. compare_loop a bs (c # cs) h = (Inr (block # blocks, missing), h')"
      using False run
      apply (simp add: steps gm columns_joined_frame select_columns_def)
      apply (simp add: bind_def ret_def)
      done
    moreover have "grown h ?h2" by (simp add: grown_def nth_append)
    then have "grown h h'" using g by (rule grown_trans)
    ultimately show ?thesis using bs by auto
  qed
qed

lemma company_column_facts:
  assumes "c \<in> set (get_company_columns F)"
  shows "c \<in> set (columns F)" and "c \<noteq> ''Age''"
  using assms by (auto simp: get_company_columns_def base_cols_def)

lemma build_relative_trend_result:
  assumes df: "df < length h"
    and guard: "base_company \<noteq> []" "compare_companies \<noteq> []"
    and cols: "''Gender'' \<in> set (columns (h ! df))" "''Occupation'' \<in> set (columns (h ! df))"
      "''Age'' \<in> set (columns (h ! df))"
    and base: "base_company \<in> set (get_company_columns (h ! df))"
    and cmps: "set compare_companies \<subseteq> set (get_company_columns (h ! df))"
  shows "\<exists>out missing keys.
           fst (build_relative_trend parse df base_company compare_companies gender occupation benefit
                  benefit_period waiting_period h) = Inr (out, missing, keys = [])
           \<and> distinct keys
           \<and> set keys = {r ''Age'' | r. r \<in> set (rows (h ! df))
                                     \<and> passes_filters (columns (h ! df)) gender occupation benefit
                                          benefit_period waiting_period r
                                     \<and> r ''Age'' \<noteq> Missing
                                     \<and> to_numeric parse (r base_company) \<noteq> Missing}
           \<and> take (length keys) (rows out)
               = map (\<lambda>k. (\<lambda>x. Missing)(''Age'' := k, ''Company'' := Str (display_name base_company),
                                         ''Ratio'' := Num 100)) keys
           \<and> (keys = [] \<longrightarrow> out = empty_frame \<and> missing = compare_companies)"
proof -
  let ?f = "h ! df"
  let ?pass = "passes_filters (columns ?f) gender occupation benefit benefit_period waiting_period"
  let ?F = "?f\<lparr>rows := filter ?pass (rows ?f)\<rparr>"
  let ?ncs = "base_company # compare_companies"
  note bc = company_column_facts [OF base]
  have cc: "set compare_companies \<subseteq> set (columns ?f)" "''Age'' \<notin> set compare_companies"
    using cmps by (auto simp: get_company_columns_def base_cols_def)
  from apply_filters_success [OF df cols(1,2)] obtain a h1
    where s1: "apply_filters df gender occupation benefit benefit_period waiting_period h = (Inr a, h1)"
      and l1: "local_frame h h1 a ?F" by blast
  from l1 have a1: "a < length h1" and F1: "h1 ! a = ?F" by (simp_all add: local_frame_def)
  have ncs: "filter (\<lambda>c. c \<in> set (columns ?F)) ?ncs = ?ncs"
    using bc(1) cc(1) by (auto intro: filter_True)
  let ?F' = "coerced parse ?ncs ?F"
  let ?h2 = "h1[a := ?F']"
  have s2: "coerce_all parse a ?ncs h1 = (Inr (), ?h2)"
    using coerce_all_run [OF a1, of ?ncs parse] F1 bc(1) cc(1) by simp
  have F2: "?h2 ! a = ?F'" using a1 by simp
  have colsF': "columns ?F' = columns ?f" by (simp add: coerced_def)
  from group_mean_keys [of ?F' base_company] cols(3) bc(1) colsF'
  obtain bs where gm: "group_mean ?F' base_company = Inr bs"
    and dk: "distinct (map fst bs)"
    and sk: "set (map fst bs)
               = {r ''Age'' | r. r \<in> set (rows ?F') \<and> r ''Age'' \<noteq> Missing \<and> r base_company \<noteq> Missing}"
    by auto
  let ?keys = "map fst bs"
  have set_keys: "set ?keys = {r ''Age'' | r. r \<in> set (rows ?f) \<and> ?pass r \<and> r ''Age'' \<noteq> Missing
                                         \<and> to_numeric parse (r base_company) \<noteq> Missing}"
  proof -
    define co where "co = (\<lambda>r c. if c \<in> set ?ncs then to_numeric parse (r c) else r c)"
    have rowsF': "rows ?F' = map co (filter ?pass (rows ?f))"
      by (simp add: coerced_def co_def)
    have coA: "co r ''Age'' = r ''Age''" for r
      using bc(2) cc(2) by (auto simp: co_def)
    have coB: "co r base_company = to_numeric parse (r base_company)" for r
      by (simp add: co_def)
    show ?thesis
    proof (intro set_eqI iffI)
      fix k
      assume "k \<in> set ?keys"
      then obtain r' where "k = r' ''Age''" "r' \<in> set (rows ?F')" "r' ''Age'' \<noteq> Missing"
        "r' base_company \<noteq> Missing" unfolding sk by blast
      moreover then obtain r where "r' = co r" "r \<in> set (rows ?f)" "?pass r"
        unfolding rowsF' by auto
      ultimately show "k \<in> {r ''Age'' | r. r \<in> set (rows ?f) \<and> ?pass r \<and> r ''Age'' \<noteq> Missing
                                         \<and> to_numeric parse (r base_company) \<noteq> Missing}"
        using coA coB by auto
    next
      fix k
      assume "k \<in> {r ''Age'' | r. r \<in> set (rows ?f) \<and> ?pass r \<and> r ''Age'' \<noteq> Missing
                                         \<and> to_numeric parse (r base_company) \<noteq> Missing}"
      then obtain r where r: "k = r ''Age''" "r \<in> set (rows ?f)" "?pass r" "r ''Age'' \<noteq> Missing"
        "to_numeric parse (r base_company) \<noteq> Missing" by blast
      then have "co r \<in> set (rows ?F')" unfolding rowsF' by simp
      moreover have "co r ''Age'' = k" "co r ''Age'' \<noteq> Missing" "co r base_company \<noteq> Missing"
        using r coA coB by simp_all
      ultimately show "k \<in> set ?keys" unfolding sk by blast
    qed
  qed
  let ?block = "\<lparr>columns = [''Age'', ''Company'', ''Ratio''],
                 rows = map (\<lambda>k. (\<lambda>x. Missing)(''Age'' := k, ''Company'' := Str base_company,
                                               ''Ratio'' := Num 100)) ?keys\<rparr>"
  let ?first = "if bs = [] then [] else [?block]"
  from baseline_block_run [OF bc(2), of bs ?h2] obtain h3
    where s3: "baseline_block base_company bs ?h2 = (Inr ?first, h3)" and g3: "grown ?h2 h3"
    by blast
  have a3: "a < length h3" and F3: "h3 ! a = ?F'"
    using g3 a1 by (auto simp: grown_def)
  from compare_loop_success [of a h3 compare_companies bs] a3 F3 cols(3) cc(1) colsF'
  obtain blocks missing h4
    where s4: "compare_loop a bs compare_companies h3 = (Inr (blocks, missing), h4)"
      and e4: "bs = [] \<longrightarrow> blocks = [] \<and> missing = compare_companies"
    by auto
  have b1: "\<And>k. bind (apply_filters df gender occupation benefit benefit_period waiting_period) k h
                  = k a h1" using s1 by (simp add: bind_def)
  have b2: "\<And>k. bind (coerce_all parse a ?ncs) k h1 = k () ?h2" using s2 by (simp add: bind_def)
  have b3: "\<And>k. bind (baseline_block base_company bs) k ?h2 = k ?first h3"
    using s3 by (simp add: bind_def)
  have b4: "\<And>k. bind (compare_loop a bs compare_companies) k h3 = k (blocks, missing) h4"
    using s4 by (simp add: bind_def)
  have run: "build_relative_trend parse df base_company compare_companies gender occupation benefit
               benefit_period waiting_period h
             = (if ?first @ blocks = [] then ret (empty_frame, missing, bs = [])
                else bind (alloc (concat_frames (?first @ blocks))) (\<lambda>result.
                     bind (df_assign result ''Company'' (\<lambda>row. replace_in_cell (row ''Company''))) (\<lambda>u.
                     bind (fetch result) (\<lambda>out. ret (out, missing, bs = []))))) h4"
    unfolding build_relative_trend_def
    by (simp only: guard if_False simp_thms b1 bind_fetch F1 ncs b2 F2 gm bind_lift_Inr b3 b4
          prod.case)
  show ?thesis
  proof (cases "bs = []")
    case True
    with e4 have "blocks = []" "missing = compare_companies" by simp_all
    with True run have "fst (build_relative_trend parse df base_company compare_companies gender
        occupation benefit benefit_period waiting_period h) = Inr (empty_frame, compare_companies, True)"
      by (simp add: ret_run)
    with True set_keys show ?thesis by (intro exI [of _ empty_frame] exI [of _ compare_companies]
          exI [of _ "[]"]) simp
  next
    case False
    let ?out = "\<lparr>columns = remdups (concat (map columns (?block # blocks))),
                 rows = map (\<lambda>r. r(''Company'' := replace_in_cell (r ''Company'')))
                          (concat (map rows (?block # blocks)))\<rparr>"
    have "\<exists>out. fst (build_relative_trend parse df base_company compare_companies gender
        occupation benefit benefit_period waiting_period h) = Inr (out, missing, False)
          \<and> take (length ?keys) (rows out)
               = map (\<lambda>k. (\<lambda>x. Missing)(''Age'' := k, ''Company'' := Str (display_name base_company),
                                         ''Ratio'' := Num 100)) ?keys"
      using False run
      by (simp add: steps concat_frames_def replace_in_cell_def fun_eq_iff)
    then obtain out where o: "fst (build_relative_trend parse df base_company compare_companies gender
        occupation benefit benefit_period waiting_period h) = Inr (out, missing, False)"
        "take (length ?keys) (rows out)
               = map (\<lambda>k. (\<lambda>x. Missing)(''Age'' := k, ''Company'' := Str (display_name base_company),
                                         ''Ratio'' := Num 100)) ?keys" by blast
    have ne: "?keys \<noteq> []" using False by simp
    show ?thesis
      apply (rule exI [of _ out])
      apply (rule exI [of _ missing])
      apply (rule exI [of _ ?keys])
      using ne dk set_keys o apply simp
      done
  qed
qed

section \<open>The queries on the sample table\<close>

text \<open>
  The trend of every company and the trend relative to the first company, for men on
  the sample table: the second company stands at 125 percent of the first at age 40 and
  has no point at age 30.
\<close>

lemma trend_on_sample:
  "(case fst (build_trend no_parse 0 [] ''M'' ''White'' ''Death'' None None [acme]) of
      Inl e \<Rightarrow> None
    | Inr (out, missing) \<Rightarrow>
        Some (columns out, map (\<lambda>r. (r ''Age'', r ''Company'', r ''Rate'')) (rows out), missing))
   = Some ([''Age'', ''Company'', ''Rate''],
           [(Num 30, Str ''Acme'', Num 2), (Num 40, Str ''Acme'', Num 4),
            (Num 40, Str ''Beta'', Num 5)],
           [])"
  by code_simp

lemma relative_trend_on_sample:
  "(case fst (build_relative_trend no_parse 0 ''Acme rates'' [''Beta rates''] ''M'' ''White'' ''Death''
                None None [acme]) of
      Inl e \<Rightarrow> None
    | Inr (out, missing, flag) \<Rightarrow>
        Some (columns out, map (\<lambda>r. (r ''Age'', r ''Company'', r ''Ratio'')) (rows out), missing, flag))
   = Some ([''Age'', ''Company'', ''Ratio''],
           [(Num 30, Str ''Acme'', Num 100), (Num 40, Str ''Acme'', Num 100),
            (Num 40, Str ''Beta'', Num 125)],
           [], False)"
  by code_simp

section \<open>The point lookup\<close>

text \<open>
  C8, as amended.  On a table with the columns \<open>Age\<close>, \<open>Gender\<close>, \<open>Occupation\<close> and
  \<open>BenefitType\<close> and at least one company column, the point lookup returns one row for
  each company column, in the order of the columns.  The row of a company carries the
  first non-missing value of its column among the rows that match the age, the gender,
  the occupation and the benefit exactly, or the string \<open>"no available"\<close> when no such row
  has a value.  The company's display name is its header with every occurrence of
  \<open>" rates"\<close> removed, wherever it stands, not only at the end.
\<close>

theorem point_lookup_rows:
  assumes "df < length h"
    and "''Age'' \<in> set (columns (h ! df))" and "''Gender'' \<in> set (columns (h ! df))"
    and "''Occupation'' \<in> set (columns (h ! df))" and "''BenefitType'' \<in> set (columns (h ! df))"
    and "get_company_columns (h ! df) \<noteq> []"
  shows "fst (build_lookup df age gender occupation benefit h)
           = Inr \<lparr>columns = [''Company'', ''Display''],
                  rows = map (\<lambda>c. (\<lambda>x. Missing)
                               (''Company'' := Str (str_replace '' rates'' '''' c),
                                ''Display'' :=
                                  (case filter (\<lambda>x. x \<noteq> Missing)
                                          (map (\<lambda>r. r c)
                                             (filter (\<lambda>r. cell_eq (r ''Age'') age
                                                        \<and> cell_eq (r ''Gender'') (Str gender)
                                                        \<and> cell_eq (r ''Occupation'') (Str occupation)
                                                        \<and> cell_eq (r ''BenefitType'') (Str benefit))
                                                (rows (h ! df)))) of
                                     [] \<Rightarrow> Str ''no available''
                                   | x # xs \<Rightarrow> x)))
                             (get_company_columns (h ! df))\<rparr>"
  using build_lookup_result [OF assms] by (simp add: display_name_def)

text \<open>
  The lookup at age 30 on the sample table: the first company shows its rate, the second
  has none and shows the sentinel.
\<close>

theorem point_lookup_rows_witness:
  "0 < length [acme]
   \<and> ''Age'' \<in> set (columns ([acme] ! 0)) \<and> ''Gender'' \<in> set (columns ([acme] ! 0))
   \<and> ''Occupation'' \<in> set (columns ([acme] ! 0)) \<and> ''BenefitType'' \<in> set (columns ([acme] ! 0))
   \<and> get_company_columns ([acme] ! 0) \<noteq> []
   \<and> fst (build_lookup 0 (Num 30) ''M'' ''White'' ''Death'' [acme])
       = Inr \<lparr>columns = [''Company'', ''Display''],
              rows = [(\<lambda>x. Missing)(''Company'' := Str ''Acme'', ''Display'' := Num 2),
                      (\<lambda>x. Missing)(''Company'' := Str ''Beta'', ''Display'' := Str ''no available'')]\<rparr>"
proof -
  have hyps: "0 < length [acme]"
    "''Age'' \<in> set (columns ([acme] ! 0))" "''Gender'' \<in> set (columns ([acme] ! 0))"
    "''Occupation'' \<in> set (columns ([acme] ! 0))" "''BenefitType'' \<in> set (columns ([acme] ! 0))"
    "get_company_columns ([acme] ! 0) \<noteq> []"
    by (simp_all add: acme_def get_company_columns_def base_cols_def)
  from point_lookup_rows [OF hyps, of "Num 30" "''M''" "''White''" "''Death''"] hyps
  show ?thesis
    by (simp add: acme_def get_company_columns_def base_cols_def cell_eq_def)
qed

text \<open>
  A header with \<open>" rates"\<close> inside it as well as at the end: the lookup shows \<open>Low Fund\<close>,
  where stripping the suffix gives \<open>Low rates Fund\<close>.
\<close>

theorem display_name_is_not_a_suffix_strip:
  "fst (build_lookup 0 (Num 30) ''M'' ''White'' ''Death'' [low])
     = Inr \<lparr>columns = [''Company'', ''Display''],
            rows = [(\<lambda>x. Missing)(''Company'' := Str ''Low Fund'', ''Display'' := Num 2)]\<rparr>
   \<and> strip_rates_suffix ''Low rates Fund rates'' = ''Low rates Fund''"
proof -
  have hyps: "0 < length [low]"
    "''Age'' \<in> set (columns ([low] ! 0))" "''Gender'' \<in> set (columns ([low] ! 0))"
    "''Occupation'' \<in> set (columns ([low] ! 0))" "''BenefitType'' \<in> set (columns ([low] ! 0))"
    "get_company_columns ([low] ! 0) \<noteq> []"
    by (simp_all add: low_def get_company_columns_def base_cols_def)
  from build_lookup_result [OF hyps, of "Num 30" "''M''" "''White''" "''Death''"]
  show ?thesis
    by (simp add: low_def get_company_columns_def base_cols_def cell_eq_def display_name_def
        strip_rates_suffix_def)
qed

section \<open>The baseline of the relative trend\<close>

text \<open>
  C6.  On a table with the columns \<open>Age\<close>, \<open>Gender\<close> and \<open>Occupation\<close>, with the baseline
  and the compare companies among its company columns, the relative trend returns, and
  the baseline's own block is the first rows of the result: one row for each of its ages,
  no age twice, each with the baseline's display name and the ratio exactly 100.  When
  the baseline is named and at least one compare company is given, the ages of the block
  are exactly the ages at which the baseline has a numeric value in a row that passes
  the filters.
\<close>

theorem baseline_ratio_is_100:
  assumes "df < length h"
    and "''Gender'' \<in> set (columns (h ! df))" and "''Occupation'' \<in> set (columns (h ! df))"
    and "''Age'' \<in> set (columns (h ! df))"
    and "base_company \<in> set (get_company_columns (h ! df))"
    and "set compare_companies \<subseteq> set (get_company_columns (h ! df))"
  shows "\<exists>out missing flag keys.
           fst (build_relative_trend parse df base_company compare_companies gender occupation benefit
                  benefit_period waiting_period h) = Inr (out, missing, flag)
           \<and> distinct keys
           \<and> take (length keys) (rows out)
               = map (\<lambda>k. (\<lambda>x. Missing)(''Age'' := k,
                                         ''Company'' := Str (str_replace '' rates'' '''' base_company),
                                         ''Ratio'' := Num 100)) keys
           \<and> (base_company \<noteq> [] \<and> compare_companies \<noteq> [] \<longrightarrow>
                set keys = {r ''Age'' | r. r \<in> set (rows (h ! df))
                                     \<and> passes_filters (columns (h ! df)) gender occupation benefit
                                          benefit_period waiting_period r
                                     \<and> r ''Age'' \<noteq> Missing
                                     \<and> to_numeric parse (r base_company) \<noteq> Missing})"
proof (cases "base_company \<noteq> [] \<and> compare_companies \<noteq> []")
  case True
  then have g: "base_company \<noteq> []" "compare_companies \<noteq> []" by simp_all
  from build_relative_trend_result [OF assms(1) g assms(2-6), of parse gender occupation benefit
      benefit_period waiting_period]
  obtain out missing keys where
    "fst (build_relative_trend parse df base_company compare_companies gender occupation benefit
            benefit_period waiting_period h) = Inr (out, missing, keys = [])"
    "distinct keys"
    "set keys = {r ''Age'' | r. r \<in> set (rows (h ! df))
                   \<and> passes_filters (columns (h ! df)) gender occupation benefit
                        benefit_period waiting_period r
                   \<and> r ''Age'' \<noteq> Missing \<and> to_numeric parse (r base_company) \<noteq> Missing}"
    "take (length keys) (rows out)
       = map (\<lambda>k. (\<lambda>x. Missing)(''Age'' := k, ''Company'' := Str (display_name base_company),
                                 ''Ratio'' := Num 100)) keys"
    by blast
  then show ?thesis unfolding display_name_def by blast
next
  case False
  then have "fst (build_relative_trend parse df base_company compare_companies gender occupation
                    benefit benefit_period waiting_period h) = Inr (empty_frame, [], False)"
    by (auto simp add: build_relative_trend_def ret_def)
  then have "fst (build_relative_trend parse df base_company compare_companies gender occupation
                    benefit benefit_period waiting_period h) = Inr (empty_frame, [], False)
      \<and> distinct ([] :: pd_value list)
      \<and> take (length ([] :: pd_value list)) (rows empty_frame)
          = map (\<lambda>k. (\<lambda>x. Missing)(''Age'' := k,
                                    ''Company'' := Str (str_replace '' rates'' '''' base_company),
                                    ''Ratio'' := Num 100)) []
      \<and> (base_company \<noteq> [] \<and> compare_companies \<noteq> [] \<longrightarrow>
           set ([] :: pd_value list) = {r ''Age'' | r. r \<in> set (rows (h ! df))
                                     \<and> passes_filters (columns (h ! df)) gender occupation benefit
                                          benefit_period waiting_period r
                                     \<and> r ''Age'' \<noteq> Missing
                                     \<and> to_numeric parse (r base_company) \<noteq> Missing})"
    using False by auto
  then show ?thesis by blast
qed

text \<open>
  On the sample table the first company has rates at the ages 30 and 40 under the
  filters, and its block has these two ages.
\<close>

theorem baseline_ratio_is_100_witness:
  "0 < length [acme]
   \<and> ''Gender'' \<in> set (columns ([acme] ! 0)) \<and> ''Occupation'' \<in> set (columns ([acme] ! 0))
   \<and> ''Age'' \<in> set (columns ([acme] ! 0))
   \<and> ''Acme rates'' \<in> set (get_company_columns ([acme] ! 0))
   \<and> set [''Beta rates''] \<subseteq> set (get_company_columns ([acme] ! 0))
   \<and> (\<exists>out missing flag keys.
         fst (build_relative_trend no_parse 0 ''Acme rates'' [''Beta rates''] ''M'' ''White'' ''Death''
                None None [acme]) = Inr (out, missing, flag)
         \<and> distinct keys
         \<and> take (length keys) (rows out)
             = map (\<lambda>k. (\<lambda>x. Missing)(''Age'' := k, ''Company'' := Str ''Acme'',
                                       ''Ratio'' := Num 100)) keys
         \<and> set keys = {Num 30, Num 40})"
proof -
  have hyps: "0 < length [acme]"
    "''Gender'' \<in> set (columns ([acme] ! 0))" "''Occupation'' \<in> set (columns ([acme] ! 0))"
    "''Age'' \<in> set (columns ([acme] ! 0))"
    "''Acme rates'' \<in> set (get_company_columns ([acme] ! 0))"
    "set [''Beta rates''] \<subseteq> set (get_company_columns ([acme] ! 0))"
    by (simp_all add: acme_def get_company_columns_def base_cols_def)
  have ages: "{r ''Age'' | r. r \<in> set (rows ([acme] ! 0))
                 \<and> passes_filters (columns ([acme] ! 0)) ''M'' ''White'' ''Death'' None None r
                 \<and> r ''Age'' \<noteq> Missing \<and> to_numeric no_parse (r ''Acme rates'') \<noteq> Missing}
              = {Num 30, Num 40}"
  proof -
    have "{r ''Age'' | r. r \<in> set (rows ([acme] ! 0))
                 \<and> passes_filters (columns ([acme] ! 0)) ''M'' ''White'' ''Death'' None None r
                 \<and> r ''Age'' \<noteq> Missing \<and> to_numeric no_parse (r ''Acme rates'') \<noteq> Missing}
          = (\<lambda>r. r ''Age'') ` set (filter (\<lambda>r. passes_filters (columns ([acme] ! 0)) ''M'' ''White''
                                                   ''Death'' None None r
                                               \<and> r ''Age'' \<noteq> Missing
                                               \<and> to_numeric no_parse (r ''Acme rates'') \<noteq> Missing)
                                      (rows ([acme] ! 0)))"
      by auto
    also have "\<dots> = {Num 30, Num 40}"
      by (simp add: acme_def passes_filters_def cell_eq_def to_numeric_def)
    finally show ?thesis .
  qed
  have name: "str_replace '' rates'' '''' ''Acme rates'' = ''Acme''" by simp
  from baseline_ratio_is_100 [OF hyps, of no_parse "''M''" "''White''" "''Death''" None None]
  obtain out missing flag keys where
    "fst (build_relative_trend no_parse 0 ''Acme rates'' [''Beta rates''] ''M'' ''White'' ''Death''
            None None [acme]) = Inr (out, missing, flag)"
    "distinct keys"
    "take (length keys) (rows out)
       = map (\<lambda>k. (\<lambda>x. Missing)(''Age'' := k, ''Company'' := Str ''Acme'', ''Ratio'' := Num 100)) keys"
    "set keys = {Num 30, Num 40}"
    unfolding ages name by auto
  with hyps show ?thesis by blast
qed

section \<open>A baseline without data\<close>

text \<open>
  C7, as amended.  On a table with the columns \<open>Age\<close>, \<open>Gender\<close> and \<open>Occupation\<close>, when a
  baseline company is named and at least one compare company is given, all of them
  company columns of the table, and no row that passes the filters has both an age and
  a numeric value of the baseline, the relative trend returns an empty frame, every
  compare company as missing, and the baseline-missing flag true, whatever data the
  compare companies have.
\<close>

theorem baseline_missing_flag:
  assumes "df < length h"
    and "base_company \<noteq> []" and "compare_companies \<noteq> []"
    and "''Gender'' \<in> set (columns (h ! df))" and "''Occupation'' \<in> set (columns (h ! df))"
    and "''Age'' \<in> set (columns (h ! df))"
    and "base_company \<in> set (get_company_columns (h ! df))"
    and "set compare_companies \<subseteq> set (get_company_columns (h ! df))"
    and none: "filter (\<lambda>r. passes_filters (columns (h ! df)) gender occupation benefit
                              benefit_period waiting_period r
                          \<and> r ''Age'' \<noteq> Missing
                          \<and> to_numeric parse (r base_company) \<noteq> Missing) (rows (h ! df)) = []"
  shows "fst (build_relative_trend parse df base_company compare_companies gender occupation benefit
                benefit_period waiting_period h) = Inr (empty_frame, compare_companies, True)"
proof -
  from build_relative_trend_result [OF assms(1-8), of parse gender occupation benefit
      benefit_period waiting_period]
  obtain out missing keys where
    run: "fst (build_relative_trend parse df base_company compare_companies gender occupation benefit
            benefit_period waiting_period h) = Inr (out, missing, keys = [])"
    and keys: "set keys = {r ''Age'' | r. r \<in> set (rows (h ! df))
                   \<and> passes_filters (columns (h ! df)) gender occupation benefit
                        benefit_period waiting_period r
                   \<and> r ''Age'' \<noteq> Missing \<and> to_numeric parse (r base_company) \<noteq> Missing}"
    and empty: "keys = [] \<longrightarrow> out = empty_frame \<and> missing = compare_companies"
    by blast
  have "set keys = {}"
  proof (rule ccontr)
    assume "set keys \<noteq> {}"
    then obtain r where "r \<in> set (rows (h ! df))"
      "passes_filters (columns (h ! df)) gender occupation benefit benefit_period waiting_period r"
      "r ''Age'' \<noteq> Missing" "to_numeric parse (r base_company) \<noteq> Missing"
      unfolding keys by blast
    then have "r \<in> set (filter (\<lambda>r. passes_filters (columns (h ! df)) gender occupation benefit
                              benefit_period waiting_period r
                          \<and> r ''Age'' \<noteq> Missing
                          \<and> to_numeric parse (r base_company) \<noteq> Missing) (rows (h ! df)))"
      by simp
    with none show False by simp
  qed
  then have "keys = []" by simp
  with run empty show ?thesis by simp
qed

text \<open>
  On the sample table the second company has no rate for women and the first has one:
  with the second as baseline the flag is set, although the compare company has data.
\<close>

theorem baseline_missing_flag_witness:
  "0 < length [acme] \<and> ''Beta rates'' \<noteq> [] \<and> [''Acme rates''] \<noteq> []
   \<and> ''Gender'' \<in> set (columns ([acme] ! 0)) \<and> ''Occupation'' \<in> set (columns ([acme] ! 0))
   \<and> ''Age'' \<in> set (columns ([acme] ! 0))
   \<and> ''Beta rates'' \<in> set (get_company_columns ([acme] ! 0))
   \<and> set [''Acme rates''] \<subseteq> set (get_company_columns ([acme] ! 0))
   \<and> filter (\<lambda>r. passes_filters (columns ([acme] ! 0)) ''F'' ''White'' ''Death'' None None r
                  \<and> r ''Age'' \<noteq> Missing
                  \<and> to_numeric no_parse (r ''Beta rates'') \<noteq> Missing) (rows ([acme] ! 0)) = []
   \<and> filter (\<lambda>r. passes_filters (columns ([acme] ! 0)) ''F'' ''White'' ''Death'' None None r
                  \<and> r ''Age'' \<noteq> Missing
                  \<and> to_numeric no_parse (r ''Acme rates'') \<noteq> Missing) (rows ([acme] ! 0)) \<noteq> []
   \<and> fst (build_relative_trend no_parse 0 ''Beta rates'' [''Acme rates''] ''F'' ''White'' ''Death''
            None None [acme]) = Inr (empty_frame, [''Acme rates''], True)"
proof -
  have hyps: "0 < length [acme]" "''Beta rates'' \<noteq> []" "[''Acme rates''] \<noteq> []"
    "''Gender'' \<in> set (columns ([acme] ! 0))" "''Occupation'' \<in> set (columns ([acme] ! 0))"
    "''Age'' \<in> set (columns ([acme] ! 0))"
    "''Beta rates'' \<in> set (get_company_columns ([acme] ! 0))"
    "set [''Acme rates''] \<subseteq> set (get_company_columns ([acme] ! 0))"
    by (simp_all add: acme_def get_company_columns_def base_cols_def)
  have none: "filter (\<lambda>r. passes_filters (columns ([acme] ! 0)) ''F'' ''White'' ''Death'' None None r
                  \<and> r ''Age'' \<noteq> Missing
                  \<and> to_numeric no_parse (r ''Beta rates'') \<noteq> Missing) (rows ([acme] ! 0)) = []"
    by (simp add: acme_def passes_filters_def cell_eq_def to_numeric_def)
  have some: "filter (\<lambda>r. passes_filters (columns ([acme] ! 0)) ''F'' ''White'' ''Death'' None None r
                  \<and> r ''Age'' \<noteq> Missing
                  \<and> to_numeric no_parse (r ''Acme rates'') \<noteq> Missing) (rows ([acme] ! 0)) \<noteq> []"
    by (simp add: acme_def passes_filters_def cell_eq_def to_numeric_def)
  from baseline_missing_flag [OF hyps none] hyps none some
  show ?thesis by blast
qed

text \<open>
  With the same baseline and filters and no compare company, the baseline still has no
  matching row, and the flag returned is false: line 141 returns before anything is
  read.
\<close>

theorem no_compare_company_no_flag:
  "filter (\<lambda>r. passes_filters (columns ([acme] ! 0)) ''F'' ''White'' ''Death'' None None r
                  \<and> r ''Age'' \<noteq> Missing
                  \<and> to_numeric no_parse (r ''Beta rates'') \<noteq> Missing) (rows ([acme] ! 0)) = []
   \<and> fst (build_relative_trend no_parse 0 ''Beta rates'' [] ''F'' ''White'' ''Death''
            None None [acme]) = Inr (empty_frame, [], False)"
  by (simp add: acme_def passes_filters_def cell_eq_def to_numeric_def build_relative_trend_def ret_def)

section \<open>The queries leave the table alone\<close>

lemma rerun_same:
  assumes k: "\<And>n. keeps n (m df) Q"
    and a: "\<And>n1 n2. agree df n1 df n2 (m df) (m df) (=)"
    and df: "df < length h"
  shows "take (length h) (snd (m df h)) = h \<and> fst (m df (snd (m df h))) = fst (m df h)"
proof -
  let ?h' = "snd (m df h)"
  have t: "take (length h) ?h' = h" by (rule keeps_store [OF k])
  have len: "length h \<le> length ?h'"
  proof (rule ccontr)
    assume "\<not> length h \<le> length ?h'"
    then have "length (take (length h) ?h') < length h" by simp
    with t show False by simp
  qed
  have "?h' ! df = take (length h) ?h' ! df" using df by simp
  then have same: "h ! df = ?h' ! df" using t by simp
  have "fst (m df h) = fst (m df ?h')"
    by (rule agree_results [OF a df _ same]) (use df len in simp)
  with t show ?thesis by simp
qed

text \<open>
  C9.  Each of the three queries, run on a table of the store with any filter
  parameters, leaves every frame that was in the store unchanged, the table among them:
  what it assigns to are frames it has made itself.  Run again after itself with the same
  parameters, it returns the same result, or raises the same exception.
\<close>

theorem queries_leave_table_unchanged:
  assumes "df < length h"
  shows "(take (length h) (snd (build_lookup df age gender occupation benefit h)) = h
          \<and> fst (build_lookup df age gender occupation benefit
                   (snd (build_lookup df age gender occupation benefit h)))
              = fst (build_lookup df age gender occupation benefit h))
       \<and> (take (length h) (snd (build_trend parse df companies gender occupation benefit
                                   benefit_period waiting_period h)) = h
          \<and> fst (build_trend parse df companies gender occupation benefit benefit_period waiting_period
                   (snd (build_trend parse df companies gender occupation benefit
                           benefit_period waiting_period h)))
              = fst (build_trend parse df companies gender occupation benefit
                       benefit_period waiting_period h))
       \<and> (take (length h) (snd (build_relative_trend parse df base_company compare_companies gender
                                   occupation benefit benefit_period waiting_period h)) = h
          \<and> fst (build_relative_trend parse df base_company compare_companies gender occupation benefit
                   benefit_period waiting_period
                   (snd (build_relative_trend parse df base_company compare_companies gender
                           occupation benefit benefit_period waiting_period h)))
              = fst (build_relative_trend parse df base_company compare_companies gender occupation
                       benefit benefit_period waiting_period h))"
proof (intro conjI)
  note l = rerun_same [where m = "\<lambda>d. build_lookup d age gender occupation benefit",
      OF keeps_build_lookup agree_build_lookup assms]
  note t = rerun_same [where m = "\<lambda>d. build_trend parse d companies gender occupation benefit
      benefit_period waiting_period", OF keeps_build_trend agree_build_trend assms]
  note r = rerun_same [where m = "\<lambda>d. build_relative_trend parse d base_company compare_companies
      gender occupation benefit benefit_period waiting_period",
      OF keeps_build_relative_trend agree_build_relative_trend assms]
  show "take (length h) (snd (build_lookup df age gender occupation benefit h)) = h"
    using l by (rule conjunct1)
  show "fst (build_lookup df age gender occupation benefit
               (snd (build_lookup df age gender occupation benefit h)))
          = fst (build_lookup df age gender occupation benefit h)"
    using l by (rule conjunct2)
  show "take (length h) (snd (build_trend parse df companies gender occupation benefit
                                benefit_period waiting_period h)) = h"
    using t by (rule conjunct1)
  show "fst (build_trend parse df companies gender occupation benefit benefit_period waiting_period
               (snd (build_trend parse df companies gender occupation benefit
                       benefit_period waiting_period h)))
          = fst (build_trend parse df companies gender occupation benefit
                   benefit_period waiting_period h)"
    using t by (rule conjunct2)
  show "take (length h) (snd (build_relative_trend parse df base_company compare_companies gender
                                occupation benefit benefit_period waiting_period h)) = h"
    using r by (rule conjunct1)
  show "fst (build_relative_trend parse df base_company compare_companies gender occupation benefit
               benefit_period waiting_period
               (snd (build_relative_trend parse df base_company compare_companies gender
                       occupation benefit benefit_period waiting_period h)))
          = fst (build_relative_trend parse df base_company compare_companies gender occupation
                   benefit benefit_period waiting_period h)"
    using r by (rule conjunct2)
qed

text \<open>
  The three queries on the sample table.
\<close>

theorem queries_leave_table_unchanged_witness:
  "0 < length [acme]
   \<and> take (length [acme]) (snd (build_lookup 0 (Num 30) ''M'' ''White'' ''Death'' [acme])) = [acme]
   \<and> fst (build_lookup 0 (Num 30) ''M'' ''White'' ''Death''
            (snd (build_lookup 0 (Num 30) ''M'' ''White'' ''Death'' [acme])))
       = fst (build_lookup 0 (Num 30) ''M'' ''White'' ''Death'' [acme])
   \<and> take (length [acme]) (snd (build_trend no_parse 0 [''Acme rates''] ''M'' ''White'' ''Death''
                                   None None [acme])) = [acme]
   \<and> fst (build_trend no_parse 0 [''Acme rates''] ''M'' ''White'' ''Death'' None None
            (snd (build_trend no_parse 0 [''Acme rates''] ''M'' ''White'' ''Death'' None None [acme])))
       = fst (build_trend no_parse 0 [''Acme rates''] ''M'' ''White'' ''Death'' None None [acme])
   \<and> take (length [acme]) (snd (build_relative_trend no_parse 0 ''Acme rates'' [''Beta rates'']
                                   ''M'' ''White'' ''Death'' None None [acme])) = [acme]
   \<and> fst (build_relative_trend no_parse 0 ''Acme rates'' [''Beta rates''] ''M'' ''White'' ''Death''
            None None
            (snd (build_relative_trend no_parse 0 ''Acme rates'' [''Beta rates''] ''M'' ''White''
                    ''Death'' None None [acme])))
       = fst (build_relative_trend no_parse 0 ''Acme rates'' [''Beta rates''] ''M'' ''White'' ''Death''
                None None [acme])"
proof -
  have df: "0 < length [acme]" by simp
  from queries_leave_table_unchanged [OF df, of "Num 30" "''M''" "''White''" "''Death''" no_parse
      "[''Acme rates'']" None None "''Acme rates''" "[''Beta rates'']"] df
  show ?thesis by blast
qed

end
